theory Spec2Isabelle
  imports Main
begin

section \<open>JavaScript values\<close>

text \<open>
  A thrown value or the reason of a rejected promise: an \<open>Error\<close> or \<open>TypeError\<close> object
  with its message, or a thrown string. The catch blocks of the routes read \<open>.message\<close>,
  which a string does not have: \<open>undefined\<close>, falsy like the empty string that stands for
  it here.
\<close>

datatype error = Error string | TypeError string | Thrown string

fun message :: "error \<Rightarrow> string" where
  "message (Error m) = m"
| "message (TypeError m) = m"
| "message (Thrown v) = []"

text \<open>
  Every function of \<open>db.js\<close> and of the User model is declared \<open>async\<close>: a call returns a
  Promise object, settled as fulfilled (\<open>Inr\<close>) or rejected (\<open>Inl\<close>). \<open>await\<close> unwraps it, a
  rejection becoming a throw. A caller that does not await holds the Promise object itself:
  like every object it is truthy, and it has no property \<open>id\<close>, so reading \<open>.id\<close> yields
  \<open>undefined\<close>.
\<close>

datatype 'a promise = Promise "error + 'a"

fun await :: "'a promise \<Rightarrow> error + 'a" where
  "await (Promise r) = r"

definition promise_truthy :: "'a promise \<Rightarrow> bool" where
  "promise_truthy p = True"

definition promise_id :: "'a promise \<Rightarrow> string option" where
  "promise_id p = None"

text \<open>
  An optional string: \<open>None\<close> is \<open>undefined\<close> (or \<open>null\<close>). The empty string is falsy as well.
\<close>

definition truthy :: "string option \<Rightarrow> bool" where
  "truthy v = (case v of None \<Rightarrow> False | Some s \<Rightarrow> s \<noteq> [])"

text \<open>
  Strings are modelled over 8-bit characters; the string functions below are the ASCII
  part of \<open>String.prototype.toLowerCase\<close>, \<open>trim\<close> and \<open>includes\<close>, and of the regular
  expression class \<open>\s\<close>.
\<close>

definition is_space :: "char \<Rightarrow> bool" where
  "is_space c = (c \<in> set [CHR 0x09, CHR 0x0A, CHR 0x0B, CHR 0x0C, CHR 0x0D, CHR '' ''])"

definition lower_char :: "char \<Rightarrow> char" where
  "lower_char c =
     (case map_of (zip ''ABCDEFGHIJKLMNOPQRSTUVWXYZ'' ''abcdefghijklmnopqrstuvwxyz'') c of
        None \<Rightarrow> c
      | Some l \<Rightarrow> l)"

definition toLowerCase :: "string \<Rightarrow> string" where
  "toLowerCase s = map lower_char s"

definition trim :: "string \<Rightarrow> string" where
  "trim s = rev (dropWhile is_space (rev (dropWhile is_space s)))"

definition startsWith :: "string \<Rightarrow> string \<Rightarrow> bool" where
  "startsWith s sub = (take (length sub) s = sub)"

fun includes_str :: "string \<Rightarrow> string \<Rightarrow> bool" where
  "includes_str [] sub = (sub = [])"
| "includes_str (c # cs) sub = (startsWith (c # cs) sub \<or> includes_str cs sub)"

section \<open>HTTP responses\<close>

record jwt_payload =
  jp_userId :: string
  jp_email :: string
  iat :: nat
  exp :: nat

text \<open>
  A string presented or issued as a session credential: a compact JWT, represented by its
  decoded payload segment and its signature segment, or any other string.
\<close>

datatype token = Opaque string | Jwt jwt_payload string

datatype json = JNull | JBool bool | JStr string | JToken token | JObj "(string \<times> json) list"

datatype http_body = Json json | Text string

record response =
  res_status :: nat
  res_body :: http_body

definition res_json :: "nat \<Rightarrow> (string \<times> json) list \<Rightarrow> response" where
  "res_json st kvs = \<lparr>res_status = st, res_body = Json (JObj kvs)\<rparr>"

definition failure :: "nat \<Rightarrow> string \<Rightarrow> response" where
  "failure st msg = res_json st [(''success'', JBool False), (''error'', JStr msg)]"

section \<open>The store: db.js\<close>

text \<open>
  The two tables the core reads and writes. Times are milliseconds since the epoch (the
  source stores them as ISO strings and compares them as \<open>Date\<close>s). The functions below
  are stated over \<open>'a store_scheme\<close>: whatever other tables the database holds
  (verification attempts, watchlist, alerts, sessions) travel in the record's extension,
  so that an unchanged store means every table unchanged.
\<close>

record user_row =
  u_id :: string
  u_email :: string
  u_password_hash :: string
  u_name :: "string option"
  u_phone :: "string option"
  u_phone_verified :: nat
  u_email_verified :: nat
  u_subscription_tier :: string
  u_subscription_status :: string
  u_stripe_customer_id :: "string option"
  u_created_at :: nat
  u_updated_at :: nat
  u_last_login :: "nat option"

record reset_token_row =
  t_user_id :: string
  t_token_hash :: string
  t_expires_at :: nat
  t_created_at :: nat

record store =
  users :: "user_row list"
  password_reset_tokens :: "reset_token_row list"

definition init_store :: store where
  "init_store = \<lparr>users = [], password_reset_tokens = []\<rparr>"

text \<open>
  A statement is its SQL text together with its parameter array. Of the text the model
  keeps the placeholder syntax (\<open>?\<close> as every statement of the source is written, or
  \<open>$1, $2, ...\<close> after \<open>convertPlaceholders\<close>); of the parameters, whether one of them is
  \<open>undefined\<close>; and of both, what executing the statement does to the store.
\<close>

datatype placeholder_syntax = QMark | Numbered

datatype db_error = UniqueViolation string

record ('s, 'r) statement =
  placeholders :: placeholder_syntax
  binds_undefined :: bool
  effect :: "'s \<Rightarrow> db_error + ('r \<times> 's)"

text \<open>
  \<open>pgPool.query\<close>: node-postgres sends the text as it is. PostgreSQL's positional
  parameters are \<open>$1, $2, ...\<close>; a text that still has \<open>?\<close> placeholders is a syntax error
  there (which is what \<open>convertPlaceholders\<close> exists for). An \<open>undefined\<close> parameter is
  sent as NULL. A uniqueness violation is reported as "duplicate key value violates
  unique constraint".
\<close>

definition pgPool_query :: "('s, 'r) statement \<Rightarrow> 's \<Rightarrow> 'r promise \<times> 's" where
  "pgPool_query st s =
     (if placeholders st = QMark then (Promise (Inl (Error ''syntax error'')), s)
      else (case effect st s of
              Inl (UniqueViolation c) \<Rightarrow>
                (Promise (Inl (Error ''duplicate key value violates unique constraint'')), s)
            | Inr (r, s') \<Rightarrow> (Promise (Inr r), s')))"

text \<open>
  \<open>sqliteDb.run\<close> and \<open>sqliteDb.prepare/bind/step\<close> of sql.js: SQLite takes the \<open>?\<close>
  placeholders as they are. Binding accepts strings, numbers and \<open>null\<close>; on an \<open>undefined\<close>
  parameter it throws a string and the statement is not executed. A uniqueness violation
  is reported as an Error "UNIQUE constraint failed: table.column".
\<close>

definition sqliteDb_run :: "('s, 'r) statement \<Rightarrow> 's \<Rightarrow> 'r promise \<times> 's" where
  "sqliteDb_run st s =
     (if binds_undefined st
      then (Promise (Inl (Thrown ''Wrong API use : tried to bind a value of an unknown type (undefined).'')), s)
      else
        (case effect st s of
           Inl (UniqueViolation c) \<Rightarrow> (Promise (Inl (Error (''UNIQUE constraint failed: '' @ c))), s)
         | Inr (r, s') \<Rightarrow> (Promise (Inr r), s')))"

definition run :: "bool \<Rightarrow> ('s, 'r) statement \<Rightarrow> 's \<Rightarrow> 'r promise \<times> 's" where
  "run USE_POSTGRES sql s = (if USE_POSTGRES then pgPool_query sql s else sqliteDb_run sql s)"

definition get :: "bool \<Rightarrow> ('s, 'r) statement \<Rightarrow> 's \<Rightarrow> 'r promise \<times> 's" where
  "get USE_POSTGRES sql s = (if USE_POSTGRES then pgPool_query sql s else sqliteDb_run sql s)"

definition convertPlaceholders :: "bool \<Rightarrow> ('s, 'r) statement \<Rightarrow> ('s, 'r) statement" where
  "convertPlaceholders USE_POSTGRES sql =
     (if \<not> USE_POSTGRES then sql else sql\<lparr>placeholders := Numbered\<rparr>)"

definition query :: "bool \<Rightarrow> ('s, 'r) statement \<Rightarrow> 's \<Rightarrow> 'r promise \<times> 's" where
  "query USE_POSTGRES sql s = run USE_POSTGRES (convertPlaceholders USE_POSTGRES sql) s"

definition getOne :: "bool \<Rightarrow> ('s, 'r) statement \<Rightarrow> 's \<Rightarrow> 'r promise \<times> 's" where
  "getOne USE_POSTGRES sql s = get USE_POSTGRES (convertPlaceholders USE_POSTGRES sql) s"

subsection \<open>The statements of the source\<close>

definition select_stmt :: "('s \<Rightarrow> 'r) \<Rightarrow> ('s, 'r) statement" where
  "select_stmt f = \<lparr>placeholders = QMark, binds_undefined = False, effect = (\<lambda>s. Inr (f s, s))\<rparr>"

definition update_stmt :: "bool \<Rightarrow> ('s \<Rightarrow> 's) \<Rightarrow> ('s, unit) statement" where
  "update_stmt undef f = \<lparr>placeholders = QMark, binds_undefined = undef, effect = (\<lambda>s. Inr ((), f s))\<rparr>"

text \<open>
  A parameter bound to \<open>WHERE id = ?\<close>: a string, or \<open>undefined\<close> (\<open>None\<close>). No row's id
  equals NULL, so where \<open>undefined\<close> is bound at all the statement changes no row.
\<close>

definition where_id :: "string option \<Rightarrow> user_row \<Rightarrow> bool" where
  "where_id p u = (p = Some (u_id u))"

definition update_users ::
  "(user_row \<Rightarrow> bool) \<Rightarrow> (user_row \<Rightarrow> user_row) \<Rightarrow> 'a store_scheme \<Rightarrow> 'a store_scheme" where
  "update_users P f s = s\<lparr>users := map (\<lambda>u. if P u then f u else u) (users s)\<rparr>"

text \<open>\<open>INSERT INTO users (id, email, password_hash, name, created_at, updated_at) VALUES (?, ?, ?, ?, ?, ?)\<close>:
  \<open>id\<close> is the primary key and \<open>email\<close> is UNIQUE; the other columns take their defaults.
  The name is \<open>undefined\<close> (\<open>None\<close>) when the request has none.\<close>

definition sql_insert_user ::
  "string \<Rightarrow> string \<Rightarrow> string \<Rightarrow> string option \<Rightarrow> nat \<Rightarrow> nat \<Rightarrow> ('a store_scheme, unit) statement" where
  "sql_insert_user i e h n c upd =
     \<lparr>placeholders = QMark,
      binds_undefined = (n = None),
      effect = (\<lambda>s.
        if e \<in> set (map u_email (users s)) then Inl (UniqueViolation ''users.email'')
        else if i \<in> set (map u_id (users s)) then Inl (UniqueViolation ''users.id'')
        else Inr ((), s\<lparr>users := users s @
          [\<lparr>u_id = i, u_email = e, u_password_hash = h, u_name = n, u_phone = None,
            u_phone_verified = 0, u_email_verified = 0, u_subscription_tier = ''free'',
            u_subscription_status = ''active'', u_stripe_customer_id = None,
            u_created_at = c, u_updated_at = upd, u_last_login = None\<rparr>]\<rparr>))\<rparr>"

text \<open>\<open>SELECT * FROM users WHERE email = ?\<close>\<close>

definition sql_select_user_by_email :: "string \<Rightarrow> ('a store_scheme, user_row option) statement" where
  "sql_select_user_by_email e = select_stmt (\<lambda>s. find (\<lambda>u. u_email u = e) (users s))"

text \<open>\<open>UPDATE users SET last_login = ? WHERE id = ?\<close>\<close>

definition sql_update_last_login :: "nat \<Rightarrow> string \<Rightarrow> ('a store_scheme, unit) statement" where
  "sql_update_last_login now i =
     update_stmt False (update_users (where_id (Some i)) (\<lambda>u. u\<lparr>u_last_login := Some now\<rparr>))"

text \<open>\<open>INSERT INTO password_reset_tokens (user_id, token_hash, expires_at) VALUES (?, ?, ?)
  ON CONFLICT (user_id) DO UPDATE SET token_hash = ?, expires_at = ?\<close>\<close>

definition upsert_rows ::
  "string \<Rightarrow> string \<Rightarrow> nat \<Rightarrow> nat \<Rightarrow> reset_token_row list \<Rightarrow> reset_token_row list" where
  "upsert_rows uid h e now ts =
     (if uid \<in> set (map t_user_id ts)
      then map (\<lambda>r. if t_user_id r = uid then r\<lparr>t_token_hash := h, t_expires_at := e\<rparr> else r) ts
      else ts @ [\<lparr>t_user_id = uid, t_token_hash = h, t_expires_at = e, t_created_at = now\<rparr>])"

definition sql_upsert_reset_token ::
  "string \<Rightarrow> string \<Rightarrow> nat \<Rightarrow> nat \<Rightarrow> ('a store_scheme, unit) statement" where
  "sql_upsert_reset_token uid h e now =
     update_stmt False
       (\<lambda>s. s\<lparr>password_reset_tokens := upsert_rows uid h e now (password_reset_tokens s)\<rparr>)"

text \<open>\<open>SELECT user_id, expires_at FROM password_reset_tokens WHERE token_hash = ?\<close>\<close>

definition sql_select_reset_token :: "string \<Rightarrow> ('a store_scheme, reset_token_row option) statement" where
  "sql_select_reset_token h = select_stmt (\<lambda>s. find (\<lambda>r. t_token_hash r = h) (password_reset_tokens s))"

text \<open>\<open>DELETE FROM password_reset_tokens WHERE token_hash = ?\<close>\<close>

definition sql_delete_reset_token_by_hash :: "string \<Rightarrow> ('a store_scheme, unit) statement" where
  "sql_delete_reset_token_by_hash h =
     update_stmt False
       (\<lambda>s. s\<lparr>password_reset_tokens := filter (\<lambda>r. t_token_hash r \<noteq> h) (password_reset_tokens s)\<rparr>)"

text \<open>\<open>DELETE FROM password_reset_tokens WHERE user_id = ?\<close>\<close>

definition sql_delete_reset_token_by_user :: "string \<Rightarrow> ('a store_scheme, unit) statement" where
  "sql_delete_reset_token_by_user uid =
     update_stmt False
       (\<lambda>s. s\<lparr>password_reset_tokens := filter (\<lambda>r. t_user_id r \<noteq> uid) (password_reset_tokens s)\<rparr>)"

text \<open>\<open>UPDATE users SET subscription_tier = 'pro', subscription_status = 'active',
  stripe_customer_id = ?, updated_at = ? WHERE id = ?\<close>\<close>

definition sql_update_checkout ::
  "string option \<Rightarrow> nat \<Rightarrow> string option \<Rightarrow> ('a store_scheme, unit) statement" where
  "sql_update_checkout cust now i =
     update_stmt (i = None) (update_users (where_id i)
       (\<lambda>u. u\<lparr>u_subscription_tier := ''pro'', u_subscription_status := ''active'',
              u_stripe_customer_id := cust, u_updated_at := now\<rparr>))"

text \<open>\<open>UPDATE users SET subscription_tier = ?, subscription_status = ?, updated_at = ? WHERE id = ?\<close>\<close>

definition sql_update_subscription ::
  "string \<Rightarrow> string \<Rightarrow> nat \<Rightarrow> string option \<Rightarrow> ('a store_scheme, unit) statement" where
  "sql_update_subscription tier st now i =
     update_stmt (i = None) (update_users (where_id i)
       (\<lambda>u. u\<lparr>u_subscription_tier := tier, u_subscription_status := st, u_updated_at := now\<rparr>))"

text \<open>\<open>UPDATE users SET subscription_tier = 'free', subscription_status = 'canceled',
  updated_at = ? WHERE id = ?\<close>\<close>

definition sql_update_canceled :: "nat \<Rightarrow> string option \<Rightarrow> ('a store_scheme, unit) statement" where
  "sql_update_canceled now i =
     update_stmt (i = None) (update_users (where_id i)
       (\<lambda>u. u\<lparr>u_subscription_tier := ''free'', u_subscription_status := ''canceled'',
              u_updated_at := now\<rparr>))"

text \<open>\<open>SELECT id FROM users WHERE stripe_customer_id = ?\<close> (and \<open>SELECT id, email\<close>)\<close>

definition sql_select_user_by_customer ::
  "string option \<Rightarrow> ('a store_scheme, user_row option) statement" where
  "sql_select_user_by_customer c =
     select_stmt (\<lambda>s. find (\<lambda>u. c \<noteq> None \<and> u_stripe_customer_id u = c) (users s))"

section \<open>The environment\<close>

text \<open>
  What the Stripe library hands to the webhook handlers: the \<open>data.object\<close> of an event
  (a checkout session, a subscription or an invoice), read through the properties the
  handlers use, and the event's \<open>type\<close>. \<open>metadata_userId\<close> is \<open>None\<close> when the metadata has
  no \<open>userId\<close> (\<open>undefined\<close>); \<open>customer\<close> is \<open>None\<close> when Stripe sends \<open>null\<close>. (The email
  addresses that \<open>handleCheckoutComplete\<close> reads are only logged.)
\<close>

record stripe_object =
  metadata_userId :: "string option"
  customer :: "string option"
  status :: string

record event =
  ev_type :: string
  data_object :: stripe_object

text \<open>
  The process configuration (\<open>process.env\<close>) and the functions of the libraries the
  source calls: SHA-256 in hex, bcrypt (with the salt it draws), the HMAC of a JWT's
  signing input, Stripe's expected signature header for a payload, and \<open>JSON.parse\<close> of a
  webhook payload.
\<close>

record env =
  USE_POSTGRES :: bool
  JWT_SECRET :: string
  STRIPE_WEBHOOK_SECRET :: string
  sha256_hex :: "string \<Rightarrow> string"
  bcrypt_hash :: "string \<Rightarrow> string \<Rightarrow> string"
  bcrypt_compare :: "string \<Rightarrow> string \<Rightarrow> bool"
  hs256 :: "string \<Rightarrow> jwt_payload \<Rightarrow> string"
  stripe_signature :: "string \<Rightarrow> string \<Rightarrow> string"
  JSON_parse :: "string \<Rightarrow> event option"

section \<open>The User model\<close>

record created_user =
  c_id :: string
  c_email :: string
  c_name :: "string option"
  c_phone_verified :: nat
  c_created_at :: nat

text \<open>\<open>User.create\<close>; \<open>uuid\<close> is what \<open>crypto.randomUUID()\<close> returns and \<open>salt\<close> the salt bcrypt draws.\<close>

definition User_create ::
  "env \<Rightarrow> nat \<Rightarrow> string \<Rightarrow> string \<Rightarrow> string \<Rightarrow> string \<Rightarrow> string option \<Rightarrow> 'a store_scheme
     \<Rightarrow> created_user promise \<times> 'a store_scheme" where
  "User_create env now uuid salt email password name s =
     (let passwordHash = bcrypt_hash env salt password in
      (case query (USE_POSTGRES env)
              (sql_insert_user uuid (trim (toLowerCase email)) passwordHash name now now) s of
         (p, s1) \<Rightarrow>
           (case await p of
              Inr _ \<Rightarrow>
                (Promise (Inr \<lparr>c_id = uuid, c_email = trim (toLowerCase email), c_name = name,
                               c_phone_verified = 0, c_created_at = now\<rparr>), s1)
            | Inl error \<Rightarrow>
                (if message error \<noteq> [] \<and>
                    (includes_str (message error) ''UNIQUE constraint failed'' \<or>
                     includes_str (message error) ''duplicate key'')
                 then (Promise (Inl (Error ''Email already exists'')), s1)
                 else (Promise (Inl error), s1)))))"

definition User_findByEmail ::
  "env \<Rightarrow> string \<Rightarrow> 'a store_scheme \<Rightarrow> user_row option promise \<times> 'a store_scheme" where
  "User_findByEmail env email s =
     getOne (USE_POSTGRES env) (sql_select_user_by_email (trim (toLowerCase email))) s"

definition User_verifyPassword :: "env \<Rightarrow> string \<Rightarrow> string \<Rightarrow> bool" where
  "User_verifyPassword env plainPassword passwordHash = bcrypt_compare env plainPassword passwordHash"

definition User_updateLastLogin ::
  "env \<Rightarrow> nat \<Rightarrow> string \<Rightarrow> 'a store_scheme \<Rightarrow> unit promise \<times> 'a store_scheme" where
  "User_updateLastLogin env now userId s =
     query (USE_POSTGRES env) (sql_update_last_login now userId) s"

text \<open>
  The static methods of class \<open>User\<close> are \<open>create\<close>, \<open>findByEmail\<close>, \<open>findById\<close>,
  \<open>verifyPassword\<close>, \<open>updatePhone\<close>, \<open>markPhoneVerified\<close>, \<open>updateLastLogin\<close>,
  \<open>updateSubscription\<close>, \<open>updateStripeCustomerId\<close>, \<open>findByStripeCustomerId\<close>,
  \<open>updateProfile\<close> and \<open>delete\<close>. The class declares no \<open>updatePassword\<close>: the property
  read \<open>User.updatePassword\<close> yields \<open>undefined\<close>.
\<close>

definition User_updatePassword ::
  "(env \<Rightarrow> string \<Rightarrow> string \<Rightarrow> 'a store_scheme \<Rightarrow> unit promise \<times> 'a store_scheme) option" where
  "User_updatePassword = None"

section \<open>Password reset routes: routes/passwordReset.js\<close>

definition TOKEN_EXPIRATION_MS :: nat where
  "TOKEN_EXPIRATION_MS = 60 * 60 * 1000"

definition forgot_password_accepted :: response where
  "forgot_password_accepted =
     res_json 200 [(''success'', JBool True),
       (''message'', JStr ''If an account exists with this email, you will receive a password reset link.'')]"

text \<open>
  \<open>POST /api/auth/forgot-password\<close>. \<open>resetToken\<close> is the hex string of
  \<open>crypto.randomBytes(32)\<close>, \<open>now\<close> is \<open>Date.now()\<close>. \<open>sendPasswordResetEmail\<close> catches its own
  failures and returns \<open>{success}\<close>, here \<open>emailResult\<close>, which the route only logs.
\<close>

definition forgot_password ::
  "env \<Rightarrow> nat \<Rightarrow> string \<Rightarrow> bool \<Rightarrow> string option \<Rightarrow> 'a store_scheme \<Rightarrow> response \<times> 'a store_scheme" where
  "forgot_password env now resetToken emailResult email s =
     (case email of
        None \<Rightarrow> (failure 400 ''Email is required'', s)
      | Some e \<Rightarrow>
          if e = [] then (failure 400 ''Email is required'', s)
          else
            (case User_findByEmail env e s of
               (p, s1) \<Rightarrow>
                 (case await p of
                    Inl error \<Rightarrow> (failure 500 ''Failed to process password reset request'', s1)
                  | Inr None \<Rightarrow> (forgot_password_accepted, s1)
                  | Inr (Some user) \<Rightarrow>
                      (let tokenHash = sha256_hex env resetToken;
                           expiresAt = now + TOKEN_EXPIRATION_MS in
                       (case query (USE_POSTGRES env)
                               (sql_upsert_reset_token (u_id user) tokenHash expiresAt now) s1 of
                          (q, s2) \<Rightarrow>
                            (case await q of
                               Inl error \<Rightarrow>
                                 (failure 500 ''Failed to process password reset request'', s2)
                             | Inr _ \<Rightarrow> (forgot_password_accepted, s2)))))))"

definition reset_password_done :: response where
  "reset_password_done =
     res_json 200 [(''success'', JBool True),
       (''message'', JStr ''Password has been reset successfully. You can now log in with your new password.'')]"

text \<open>\<open>POST /api/auth/reset-password\<close>\<close>

definition reset_password ::
  "env \<Rightarrow> nat \<Rightarrow> string option \<Rightarrow> string option \<Rightarrow> 'a store_scheme \<Rightarrow> response \<times> 'a store_scheme" where
  "reset_password env now token password s =
     (case (token, password) of
        (Some tok, Some pw) \<Rightarrow>
          if tok = [] \<or> pw = [] then (failure 400 ''Token and new password are required'', s)
          else if length pw < 8 then (failure 400 ''Password must be at least 8 characters'', s)
          else
            (let tokenHash = sha256_hex env tok in
             (case getOne (USE_POSTGRES env) (sql_select_reset_token tokenHash) s of
                (p, s1) \<Rightarrow>
                  (case await p of
                     Inl error \<Rightarrow> (failure 500 ''Failed to reset password'', s1)
                   | Inr None \<Rightarrow> (failure 400 ''Invalid or expired reset token'', s1)
                   | Inr (Some resetRecord) \<Rightarrow>
                       if t_expires_at resetRecord < now then
                         (case query (USE_POSTGRES env) (sql_delete_reset_token_by_hash tokenHash) s1 of
                            (q, s2) \<Rightarrow>
                              (case await q of
                                 Inl error \<Rightarrow> (failure 500 ''Failed to reset password'', s2)
                               | Inr _ \<Rightarrow>
                                   (failure 400 ''Reset token has expired. Please request a new one.'', s2)))
                       else
                         (case User_updatePassword of
                            None \<Rightarrow> (failure 500 ''Failed to reset password'', s1)
                          | Some updatePassword \<Rightarrow>
                              (case updatePassword env (t_user_id resetRecord) pw s1 of
                                 (u, s2) \<Rightarrow>
                                   (case await u of
                                      Inl error \<Rightarrow> (failure 500 ''Failed to reset password'', s2)
                                    | Inr _ \<Rightarrow>
                                        (case query (USE_POSTGRES env)
                                                (sql_delete_reset_token_by_user (t_user_id resetRecord)) s2 of
                                           (q, s3) \<Rightarrow>
                                             (case await q of
                                                Inl error \<Rightarrow> (failure 500 ''Failed to reset password'', s3)
                                              | Inr _ \<Rightarrow> (reset_password_done, s3)))))))))
      | _ \<Rightarrow> (failure 400 ''Token and new password are required'', s))"

text \<open>\<open>GET /api/auth/verify-reset-token\<close>\<close>

definition verify_reset_token ::
  "env \<Rightarrow> nat \<Rightarrow> string option \<Rightarrow> 'a store_scheme \<Rightarrow> response \<times> 'a store_scheme" where
  "verify_reset_token env now token s =
     (case token of
        None \<Rightarrow>
          (res_json 400 [(''success'', JBool False), (''valid'', JBool False),
                         (''error'', JStr ''Token is required'')], s)
      | Some tok \<Rightarrow>
          if tok = [] then
            (res_json 400 [(''success'', JBool False), (''valid'', JBool False),
                           (''error'', JStr ''Token is required'')], s)
          else
            (let tokenHash = sha256_hex env tok in
             (case getOne (USE_POSTGRES env) (sql_select_reset_token tokenHash) s of
                (p, s1) \<Rightarrow>
                  (case await p of
                     Inl error \<Rightarrow>
                       (res_json 500 [(''success'', JBool False), (''valid'', JBool False),
                                      (''error'', JStr ''Failed to verify token'')], s1)
                   | Inr None \<Rightarrow> (res_json 200 [(''success'', JBool True), (''valid'', JBool False)], s1)
                   | Inr (Some resetRecord) \<Rightarrow>
                       if t_expires_at resetRecord < now
                       then (res_json 200 [(''success'', JBool True), (''valid'', JBool False)], s1)
                       else (res_json 200 [(''success'', JBool True), (''valid'', JBool True)], s1)))))"

section \<open>Session credentials: routes/auth.js\<close>

text \<open>
  The \<open>jsonwebtoken\<close> library as the routes use it (HS256, the default). \<open>jwt.sign\<close> stamps
  \<open>iat\<close> with the clock in seconds and \<open>exp\<close> with \<open>iat\<close> plus the lifetime, and refuses an
  empty secret. \<open>jwt.verify\<close> fails on a string that is not a compact JWT, on an empty
  secret, on a signature that is not the HMAC of the signing input, and on a token whose
  \<open>exp\<close> the clock has reached, in this order.
\<close>

definition JWT_EXPIRATION :: nat where
  "JWT_EXPIRATION = 7 * 24 * 60 * 60"

definition jwt_sign :: "env \<Rightarrow> nat \<Rightarrow> string \<Rightarrow> string \<Rightarrow> string \<Rightarrow> nat \<Rightarrow> error + token" where
  "jwt_sign env now userId email secret expiresIn =
     (if secret = [] then Inl (Error ''secretOrPrivateKey must have a value'')
      else
        (let payload = \<lparr>jp_userId = userId, jp_email = email, iat = now div 1000,
                        exp = now div 1000 + expiresIn\<rparr>
         in Inr (Jwt payload (hs256 env secret payload))))"

definition jwt_verify :: "env \<Rightarrow> nat \<Rightarrow> token \<Rightarrow> string \<Rightarrow> error + jwt_payload" where
  "jwt_verify env now tok secret =
     (case tok of
        Opaque str \<Rightarrow> Inl (Error ''jwt malformed'')
      | Jwt payload signature \<Rightarrow>
          if secret = [] then Inl (Error ''secret or public key must be provided'')
          else if signature \<noteq> hs256 env secret payload then Inl (Error ''invalid signature'')
          else if exp payload \<le> now div 1000 then Inl (Error ''jwt expired'')
          else Inr payload)"

definition token_truthy :: "token option \<Rightarrow> bool" where
  "token_truthy t = (case t of None \<Rightarrow> False | Some (Opaque str) \<Rightarrow> str \<noteq> [] | Some (Jwt p sg) \<Rightarrow> True)"

text \<open>
  \<open>authenticateToken\<close>. \<open>authHeader\<close> is the Authorization header as
  \<open>authHeader.split(' ')\<close> cuts it (absent: \<open>None\<close>). The middleware answers, or calls
  \<open>next()\<close> with \<open>req.userId\<close> and \<open>req.userEmail\<close> set.
\<close>

definition authenticateToken :: "env \<Rightarrow> nat \<Rightarrow> token list option \<Rightarrow> response + (string \<times> string)" where
  "authenticateToken env now authHeader =
     (let token = (case authHeader of
                     None \<Rightarrow> None
                   | Some ws \<Rightarrow> if 1 < length ws then Some (ws ! 1) else None)
      in
        (case token of
           None \<Rightarrow> Inl (failure 401 ''Access token required'')
         | Some tok \<Rightarrow>
             if \<not> token_truthy token then Inl (failure 401 ''Access token required'')
             else
               (case jwt_verify env now tok (JWT_SECRET env) of
                  Inl err \<Rightarrow> Inl (failure 403 ''Invalid or expired token'')
                | Inr decoded \<Rightarrow> Inr (jp_userId decoded, jp_email decoded))))"

text \<open>
  The regular expression \<open>/^[^\s@]+@[^\s@]+\.[^\s@]+$/\<close>: a non-empty run of characters that
  are neither white space nor \<open>@\<close>, an \<open>@\<close>, and up to the end of the string characters of
  the same class with a dot among them that is neither the first nor the last.
\<close>

definition email_char :: "char \<Rightarrow> bool" where
  "email_char c = (\<not> is_space c \<and> c \<noteq> CHR ''@'')"

definition emailRegex_test :: "string \<Rightarrow> bool" where
  "emailRegex_test email =
     (takeWhile email_char email \<noteq> [] \<and>
      (case dropWhile email_char email of
         [] \<Rightarrow> False
       | c # domain \<Rightarrow>
           c = CHR ''@'' \<and> list_all email_char domain \<and> CHR ''.'' \<in> set (butlast (tl domain))))"

definition signup_catch :: "error \<Rightarrow> response" where
  "signup_catch error =
     (if message error = ''Email already exists''
      then failure 409 ''An account with this email already exists''
      else failure 500 (if message error \<noteq> [] then message error else ''Failed to create account''))"

definition json_opt :: "string option \<Rightarrow> json" where
  "json_opt v = (case v of None \<Rightarrow> JNull | Some str \<Rightarrow> JStr str)"

text \<open>
  \<open>POST /api/auth/signup\<close>. The body's \<open>email\<close>, \<open>password\<close> and \<open>name\<close> are \<open>None\<close> when
  the request does not have them (\<open>undefined\<close>).
\<close>

definition signup ::
  "env \<Rightarrow> nat \<Rightarrow> string \<Rightarrow> string \<Rightarrow> string option \<Rightarrow> string option \<Rightarrow> string option
     \<Rightarrow> 'a store_scheme \<Rightarrow> response \<times> 'a store_scheme" where
  "signup env now uuid salt email password name s =
     (case (email, password) of
        (Some e, Some pw) \<Rightarrow>
          if e = [] \<or> pw = [] then (failure 400 ''Email and password are required'', s)
          else if \<not> emailRegex_test e then (failure 400 ''Please enter a valid email address'', s)
          else if length pw < 8 then (failure 400 ''Password must be at least 8 characters'', s)
          else
            (case User_create env now uuid salt e pw name s of
               (p, s1) \<Rightarrow>
                 (case await p of
                    Inl error \<Rightarrow> (signup_catch error, s1)
                  | Inr user \<Rightarrow>
                      (case jwt_sign env now (c_id user) (c_email user) (JWT_SECRET env) JWT_EXPIRATION of
                         Inl error \<Rightarrow> (signup_catch error, s1)
                       | Inr token \<Rightarrow>
                           (res_json 201
                              [(''success'', JBool True),
                               (''message'', JStr ''Account created successfully!''),
                               (''token'', JToken token),
                               (''user'', JObj ([(''id'', JStr (c_id user)), (''email'', JStr (c_email user))] @
                                   (case c_name user of None \<Rightarrow> [] | Some n \<Rightarrow> [(''name'', JStr n)])))],
                            s1))))
      | _ \<Rightarrow> (failure 400 ''Email and password are required'', s))"

text \<open>\<open>POST /api/auth/login\<close>\<close>

definition login ::
  "env \<Rightarrow> nat \<Rightarrow> string option \<Rightarrow> string option \<Rightarrow> 'a store_scheme \<Rightarrow> response \<times> 'a store_scheme" where
  "login env now email password s =
     (case (email, password) of
        (Some e, Some pw) \<Rightarrow>
          if e = [] \<or> pw = [] then (failure 400 ''Email and password are required'', s)
          else
            (case User_findByEmail env e s of
               (p, s1) \<Rightarrow>
                 (case await p of
                    Inl error \<Rightarrow> (failure 500 ''Login failed. Please try again.'', s1)
                  | Inr None \<Rightarrow> (failure 401 ''Invalid email or password'', s1)
                  | Inr (Some user) \<Rightarrow>
                      if \<not> User_verifyPassword env pw (u_password_hash user)
                      then (failure 401 ''Invalid email or password'', s1)
                      else
                        (case User_updateLastLogin env now (u_id user) s1 of
                           (q, s2) \<Rightarrow>
                             (case await q of
                                Inl error \<Rightarrow> (failure 500 ''Login failed. Please try again.'', s2)
                              | Inr _ \<Rightarrow>
                                  (case jwt_sign env now (u_id user) (u_email user) (JWT_SECRET env)
                                          JWT_EXPIRATION of
                                     Inl error \<Rightarrow> (failure 500 ''Login failed. Please try again.'', s2)
                                   | Inr token \<Rightarrow>
                                       (res_json 200
                                          [(''success'', JBool True),
                                           (''token'', JToken token),
                                           (''user'', JObj [(''id'', JStr (u_id user)),
                                                            (''email'', JStr (u_email user)),
                                                            (''name'', json_opt (u_name user)),
                                                            (''subscriptionTier'',
                                                               JStr (u_subscription_tier user))])],
                                        s2))))))
      | _ \<Rightarrow> (failure 400 ''Email and password are required'', s))"

section \<open>The subscription reconciler: routes/stripe.js\<close>

text \<open>
  \<open>stripe.webhooks.constructEvent\<close>: checks the signature header against the one expected
  for the raw payload under the secret and throws when they differ; then parses the
  payload. (The library's header also carries a time stamp with a tolerance; the model
  keeps the comparison of signatures.)
\<close>

definition constructEvent :: "env \<Rightarrow> string \<Rightarrow> string option \<Rightarrow> string \<Rightarrow> error + event" where
  "constructEvent env payload header secret =
     (if header \<noteq> Some (stripe_signature env secret payload)
      then Inl (Error ''No signatures found matching the expected signature for payload'')
      else (case JSON_parse env payload of
              None \<Rightarrow> Inl (Error ''Unexpected token in JSON'')
            | Some ev \<Rightarrow> Inr ev))"

text \<open>
  The handlers call \<open>db.run\<close> and \<open>db.get\<close>, the entry points of \<open>db.js\<close> without placeholder
  conversion, and do not await them. Of an un-awaited \<open>db.run\<close> the store it leaves is all
  that remains (\<open>snd\<close>): a rejection is nobody's to catch. Of an un-awaited \<open>db.get\<close> the
  caller holds the Promise object (\<open>fst\<close>).
\<close>

definition handleCheckoutComplete :: "env \<Rightarrow> nat \<Rightarrow> stripe_object \<Rightarrow> 'a store_scheme \<Rightarrow> 'a store_scheme" where
  "handleCheckoutComplete env now session s =
     (let userId = metadata_userId session in
      if truthy userId
      then snd (run (USE_POSTGRES env) (sql_update_checkout (customer session) now userId) s)
      else s)"

definition handleSubscriptionUpdate :: "env \<Rightarrow> nat \<Rightarrow> stripe_object \<Rightarrow> 'a store_scheme \<Rightarrow> 'a store_scheme" where
  "handleSubscriptionUpdate env now subscription s =
     (let userId = metadata_userId subscription;
          st = status subscription
      in
        if \<not> truthy userId then s
        else
          (let tier = (if st = ''active'' \<or> st = ''trialing'' then ''pro'' else ''free'');
               subStatus = (if st = ''active'' then ''active'' else st)
           in snd (run (USE_POSTGRES env) (sql_update_subscription tier subStatus now userId) s)))"

definition handleSubscriptionCanceled :: "env \<Rightarrow> nat \<Rightarrow> stripe_object \<Rightarrow> 'a store_scheme \<Rightarrow> 'a store_scheme" where
  "handleSubscriptionCanceled env now subscription s =
     (let userId = metadata_userId subscription in
      if \<not> truthy userId then
        (let customerId = customer subscription;
             user = fst (get (USE_POSTGRES env) (sql_select_user_by_customer customerId) s)
         in
           if promise_truthy user
           then snd (run (USE_POSTGRES env) (sql_update_canceled now (promise_id user)) s)
           else s)
      else snd (run (USE_POSTGRES env) (sql_update_canceled now userId) s))"

definition handlePaymentFailed :: "env \<Rightarrow> nat \<Rightarrow> stripe_object \<Rightarrow> 'a store_scheme \<Rightarrow> 'a store_scheme" where
  "handlePaymentFailed env now invoice s =
     snd (get (USE_POSTGRES env) (sql_select_user_by_customer (customer invoice)) s)"

text \<open>The \<open>switch (event.type)\<close> of \<open>handleWebhook\<close>.\<close>

definition dispatch :: "env \<Rightarrow> nat \<Rightarrow> event \<Rightarrow> 'a store_scheme \<Rightarrow> 'a store_scheme" where
  "dispatch env now ev s =
     (if ev_type ev = ''checkout.session.completed'' then handleCheckoutComplete env now (data_object ev) s
      else if ev_type ev = ''customer.subscription.created'' \<or> ev_type ev = ''customer.subscription.updated''
        then handleSubscriptionUpdate env now (data_object ev) s
      else if ev_type ev = ''customer.subscription.deleted''
        then handleSubscriptionCanceled env now (data_object ev) s
      else if ev_type ev = ''invoice.payment_failed'' then handlePaymentFailed env now (data_object ev) s
      else s)"

text \<open>
  \<open>handleWebhook\<close>: \<open>body\<close> is the raw request body, \<open>sig\<close> the \<open>stripe-signature\<close> header.
  No handler throws (their database calls are not awaited), so the 500 branch of the
  source is never taken. What the runtime does about a rejection that nobody handles is
  outside the model.
\<close>

definition handleWebhook ::
  "env \<Rightarrow> nat \<Rightarrow> string \<Rightarrow> string option \<Rightarrow> 'a store_scheme \<Rightarrow> response \<times> 'a store_scheme" where
  "handleWebhook env now body sig s =
     (case constructEvent env body sig (STRIPE_WEBHOOK_SECRET env) of
        Inl err \<Rightarrow> (\<lparr>res_status = 400, res_body = Text (''Webhook Error: '' @ message err)\<rparr>, s)
      | Inr ev \<Rightarrow> (res_json 200 [(''received'', JBool True)], dispatch env now ev s))"

section \<open>The server: a sequence of requests\<close>

text \<open>
  The routes of the core that write to the store, and the probe. Left out are \<open>/me\<close> and
  \<open>/logout\<close>, which write nothing, and the checkout and portal routes of \<open>stripe.js\<close>, whose
  one statement writes \<open>users.stripe_customer_id\<close>. Each request carries what the route
  draws from its surroundings: the clock, and for a signup the UUID and the salt, for a
  reset request the random secret and the outcome of the email dispatch.
\<close>

datatype request =
    Signup nat string string "string option" "string option" "string option"
  | Login nat "string option" "string option"
  | ForgotPassword nat string bool "string option"
  | ResetPassword nat "string option" "string option"
  | VerifyResetToken nat "string option"
  | StripeWebhook nat string "string option"

fun serve :: "env \<Rightarrow> request \<Rightarrow> 'a store_scheme \<Rightarrow> response \<times> 'a store_scheme" where
  "serve env (Signup now uuid salt email password name) s = signup env now uuid salt email password name s"
| "serve env (Login now email password) s = login env now email password s"
| "serve env (ForgotPassword now resetToken emailResult email) s =
     forgot_password env now resetToken emailResult email s"
| "serve env (ResetPassword now token password) s = reset_password env now token password s"
| "serve env (VerifyResetToken now token) s = verify_reset_token env now token s"
| "serve env (StripeWebhook now body sig) s = handleWebhook env now body sig s"

fun serve_all :: "env \<Rightarrow> request list \<Rightarrow> 'a store_scheme \<Rightarrow> 'a store_scheme" where
  "serve_all env [] s = s"
| "serve_all env (r # rs) s = serve_all env rs (snd (serve env r s))"

text \<open>The invariant of the \<open>password_reset_tokens\<close> table: \<open>user_id\<close> is its key.\<close>

definition one_token_per_user :: "'a store_scheme \<Rightarrow> bool" where
  "one_token_per_user s = distinct (map t_user_id (password_reset_tokens s))"

text \<open>
  What the reconciler maintains of a user, and a store with the \<open>updated_at\<close> stamps of
  its users blanked: two stores equal up to the time at which rows were last written.
\<close>

definition subscription_state :: "user_row \<Rightarrow> string \<times> string \<times> string \<times> string option" where
  "subscription_state u =
     (u_id u, u_subscription_tier u, u_subscription_status u, u_stripe_customer_id u)"

definition ignoring_updated_at :: "'a store_scheme \<Rightarrow> 'a store_scheme" where
  "ignoring_updated_at s = s\<lparr>users := map (\<lambda>u. u\<lparr>u_updated_at := 0\<rparr>) (users s)\<rparr>"

section \<open>Example inputs\<close>

text \<open>
  A configuration with stand-ins for the cryptographic functions, a user with a paid
  subscription and an external customer reference, and a store holding that user and an
  unexpired reset token whose secret is \<open>tok1\<close>.
\<close>

definition example_parse :: "string \<Rightarrow> event option" where
  "example_parse body =
     (if body = ''deleted cus_1''
      then Some \<lparr>ev_type = ''customer.subscription.deleted'',
                 data_object = \<lparr>metadata_userId = None, customer = Some ''cus_1'',
                                status = ''canceled''\<rparr>\<rparr>
      else if body = ''updated u1 past_due''
      then Some \<lparr>ev_type = ''customer.subscription.updated'',
                 data_object = \<lparr>metadata_userId = Some ''u1'', customer = Some ''cus_1'',
                                status = ''past_due''\<rparr>\<rparr>
      else None)"

definition example_env :: "bool \<Rightarrow> env" where
  "example_env pg =
     \<lparr>USE_POSTGRES = pg, JWT_SECRET = ''jwt-secret'', STRIPE_WEBHOOK_SECRET = ''whsec'',
      sha256_hex = (\<lambda>x. ''sha256:'' @ x),
      bcrypt_hash = (\<lambda>salt pw. salt @ pw),
      bcrypt_compare = (\<lambda>pw h. drop (length h - length pw) h = pw),
      hs256 = (\<lambda>k p. k @ jp_userId p @ jp_email p),
      stripe_signature = (\<lambda>k b. k @ b),
      JSON_parse = example_parse\<rparr>"

definition alice :: user_row where
  "alice = \<lparr>u_id = ''u1'', u_email = ''a@b.com'', u_password_hash = ''salt1longenough1'',
            u_name = None, u_phone = None, u_phone_verified = 0, u_email_verified = 0,
            u_subscription_tier = ''pro'', u_subscription_status = ''active'',
            u_stripe_customer_id = Some ''cus_1'', u_created_at = 1000, u_updated_at = 2000,
            u_last_login = None\<rparr>"

definition alice_token :: reset_token_row where
  "alice_token = \<lparr>t_user_id = ''u1'', t_token_hash = ''sha256:tok1'', t_expires_at = 7200000,
                  t_created_at = 3600000\<rparr>"

definition example_store :: store where
  "example_store = \<lparr>users = [alice], password_reset_tokens = [alice_token]\<rparr>"

definition after_first_request :: store where
  "after_first_request =
     snd (forgot_password (example_env False) 5000 ''r1'' True (Some ''a@b.com'') example_store)"

definition after_second_request :: store where
  "after_second_request =
     snd (forgot_password (example_env False) 6000 ''r2'' False (Some '' A@B.com '') after_first_request)"

definition alice_session :: token where
  "alice_session =
     Jwt \<lparr>jp_userId = ''u1'', jp_email = ''a@b.com'', iat = 1000, exp = 605800\<rparr>
         ''jwt-secretu1a@b.com''"

definition forged_session :: token where
  "forged_session =
     Jwt \<lparr>jp_userId = ''u1'', jp_email = ''a@b.com'', iat = 1000, exp = 1500\<rparr> ''forged''"

section \<open>The database layer\<close>

text \<open>
  \<open>query\<close> and \<open>getOne\<close> convert the placeholders and so execute on either backend;
  \<open>run\<close> and \<open>get\<close> execute on SQLite only.
\<close>

lemma getOne_select: "getOne pg (select_stmt f) s = (Promise (Inr (f s)), s)"
  by (simp add: getOne_def get_def convertPlaceholders_def select_stmt_def pgPool_query_def
      sqliteDb_run_def)

lemma query_update: "query pg (update_stmt False f) s = (Promise (Inr ()), f s)"
  by (simp add: query_def run_def convertPlaceholders_def update_stmt_def pgPool_query_def
      sqliteDb_run_def)

lemma run_update:
  "snd (run pg (update_stmt undef f) s) = (if pg \<or> undef then s else f s)"
  by (simp add: run_def update_stmt_def pgPool_query_def sqliteDb_run_def)

lemma get_select:
  "get pg (select_stmt f) s =
     (if pg then (Promise (Inl (Error ''syntax error'')), s)
      else (Promise (Inr (f s)), s))"
  by (simp add: get_def select_stmt_def pgPool_query_def sqliteDb_run_def)

lemma update_users_tokens: "password_reset_tokens (update_users P f s) = password_reset_tokens s"
  by (simp add: update_users_def)

lemma update_users_undefined: "update_users (where_id None) f s = s"
  by (simp add: update_users_def where_id_def)

lemma query_insert_user_eq:
  "query pg (sql_insert_user i e h n c upd) s =
     (if \<not> pg \<and> n = None
      then (Promise (Inl (Thrown ''Wrong API use : tried to bind a value of an unknown type (undefined).'')), s)
      else if e \<in> set (map u_email (users s))
      then (Promise (Inl (Error (if pg then ''duplicate key value violates unique constraint''
                                 else ''UNIQUE constraint failed: '' @ ''users.email''))), s)
      else if i \<in> set (map u_id (users s))
      then (Promise (Inl (Error (if pg then ''duplicate key value violates unique constraint''
                                 else ''UNIQUE constraint failed: '' @ ''users.id''))), s)
      else (Promise (Inr ()), s\<lparr>users := users s @
          [\<lparr>u_id = i, u_email = e, u_password_hash = h, u_name = n, u_phone = None,
            u_phone_verified = 0, u_email_verified = 0, u_subscription_tier = ''free'',
            u_subscription_status = ''active'', u_stripe_customer_id = None,
            u_created_at = c, u_updated_at = upd, u_last_login = None\<rparr>]\<rparr>))"
  by (simp add: query_def run_def convertPlaceholders_def sql_insert_user_def pgPool_query_def
      sqliteDb_run_def del: append.simps)

lemma query_upsert:
  "snd (query pg (sql_upsert_reset_token uid h e now) s) =
     s\<lparr>password_reset_tokens := upsert_rows uid h e now (password_reset_tokens s)\<rparr>"
  by (simp add: sql_upsert_reset_token_def query_update)

lemma select_reset_token_eq:
  "getOne pg (sql_select_reset_token h) s =
     (Promise (Inr (find (\<lambda>r. t_token_hash r = h) (password_reset_tokens s))), s)"
  by (simp add: sql_select_reset_token_def getOne_select)

section \<open>The User model\<close>

lemma findByEmail_eq:
  "User_findByEmail env e s =
     (Promise (Inr (find (\<lambda>u. u_email u = trim (toLowerCase e)) (users s))), s)"
  by (simp add: User_findByEmail_def sql_select_user_by_email_def getOne_select)

lemma includes_sqlite: "includes_str (''UNIQUE constraint failed: '' @ c) ''UNIQUE constraint failed''"
  by (simp add: startsWith_def)

lemma includes_pg: "includes_str ''duplicate key value violates unique constraint'' ''duplicate key''"
  by (simp add: startsWith_def)

lemma query_insert_user_dup:
  assumes "e \<in> set (map u_email (users s)) \<or> i \<in> set (map u_id (users s))"
    and bound: "pg \<or> n \<noteq> None"
  shows "\<exists>m. query pg (sql_insert_user i e h n c upd) s = (Promise (Inl (Error m)), s) \<and> m \<noteq> [] \<and>
            (includes_str m ''UNIQUE constraint failed'' \<or> includes_str m ''duplicate key'')"
proof -
  have pgm: "''duplicate key value violates unique constraint'' \<noteq> []" by simp
  have sqm: "''UNIQUE constraint failed: '' @ c \<noteq> []" for c :: string by simp
  have good: "m \<noteq> [] \<and> (includes_str m ''UNIQUE constraint failed'' \<or> includes_str m ''duplicate key'')"
    if "m = (if pg then ''duplicate key value violates unique constraint''
             else ''UNIQUE constraint failed: '' @ c)" for m c
  proof (cases pg)
    case True
    with that have "m = ''duplicate key value violates unique constraint''" by simp
    then show ?thesis using includes_pg pgm by blast
  next
    case False
    with that have "m = ''UNIQUE constraint failed: '' @ c" by simp
    then show ?thesis using includes_sqlite sqm by blast
  qed
  have accepted: "\<not> (\<not> pg \<and> n = None)" using bound by blast
  show ?thesis
  proof (cases "e \<in> set (map u_email (users s))")
    case True
    with accepted have "query pg (sql_insert_user i e h n c upd) s =
       (Promise (Inl (Error (if pg then ''duplicate key value violates unique constraint''
                                 else ''UNIQUE constraint failed: '' @ ''users.email''))), s)"
      unfolding query_insert_user_eq by simp
    then show ?thesis using good[OF refl] by blast
  next
    case False
    with assms have "i \<in> set (map u_id (users s))" by blast
    with False accepted have "query pg (sql_insert_user i e h n c upd) s =
       (Promise (Inl (Error (if pg then ''duplicate key value violates unique constraint''
                                 else ''UNIQUE constraint failed: '' @ ''users.id''))), s)"
      unfolding query_insert_user_eq by simp
    then show ?thesis using good[OF refl] by blast
  qed
qed

text \<open>
  Where the insert is executed (on PostgreSQL, and on SQLite when the request has a name),
  \<open>User.create\<close> turns the uniqueness violation into "Email already exists".
\<close>

lemma User_create_dup:
  assumes "trim (toLowerCase e) \<in> set (map u_email (users s)) \<or> uuid \<in> set (map u_id (users s))"
    and "USE_POSTGRES env \<or> name \<noteq> None"
  shows "User_create env now uuid salt e pw name s = (Promise (Inl (Error ''Email already exists'')), s)"
proof -
  obtain m where m: "query (USE_POSTGRES env)
      (sql_insert_user uuid (trim (toLowerCase e)) (bcrypt_hash env salt pw) name now now) s =
      (Promise (Inl (Error m)), s)" "m \<noteq> []"
      "includes_str m ''UNIQUE constraint failed'' \<or> includes_str m ''duplicate key''"
    using query_insert_user_dup[OF assms] by blast
  show ?thesis using m by (simp add: User_create_def)
qed

lemma User_create_refused:
  assumes "\<not> USE_POSTGRES env" and "name = None"
  shows "User_create env now uuid salt e pw name s =
     (Promise (Inl (Thrown ''Wrong API use : tried to bind a value of an unknown type (undefined).'')), s)"
  using assms by (simp add: User_create_def query_insert_user_eq)

lemma User_create_fresh:
  assumes "trim (toLowerCase e) \<notin> set (map u_email (users s))" "uuid \<notin> set (map u_id (users s))"
    and "USE_POSTGRES env \<or> name \<noteq> None"
  shows "User_create env now uuid salt e pw name s =
     (Promise (Inr \<lparr>c_id = uuid, c_email = trim (toLowerCase e), c_name = name,
                    c_phone_verified = 0, c_created_at = now\<rparr>),
      s\<lparr>users := users s @
          [\<lparr>u_id = uuid, u_email = trim (toLowerCase e), u_password_hash = bcrypt_hash env salt pw,
            u_name = name, u_phone = None,
            u_phone_verified = 0, u_email_verified = 0, u_subscription_tier = ''free'',
            u_subscription_status = ''active'', u_stripe_customer_id = None,
            u_created_at = now, u_updated_at = now, u_last_login = None\<rparr>]\<rparr>)"
  using assms by (auto simp add: User_create_def query_insert_user_eq)

lemma User_create_tokens:
  "password_reset_tokens (snd (User_create env now uuid salt e pw name s)) = password_reset_tokens s"
proof (cases "USE_POSTGRES env \<or> name \<noteq> None")
  case False
  then show ?thesis by (simp add: User_create_refused)
next
  case bound: True
  show ?thesis
  proof (cases "trim (toLowerCase e) \<in> set (map u_email (users s)) \<or> uuid \<in> set (map u_id (users s))")
    case True
    then show ?thesis using bound by (simp add: User_create_dup)
  next
    case False
    then show ?thesis using bound by (simp add: User_create_fresh)
  qed
qed

text \<open>A signup whose normalised email is taken leaves the store as it was, executed or not.\<close>

lemma User_create_taken:
  assumes "trim (toLowerCase e) \<in> set (map u_email (users s))"
  shows "snd (User_create env now uuid salt e pw name s) = s"
proof (cases "USE_POSTGRES env \<or> name \<noteq> None")
  case False
  then show ?thesis by (simp add: User_create_refused)
next
  case True
  then show ?thesis using assms by (simp add: User_create_dup)
qed

section \<open>What each route does to the store\<close>

lemma signup_store:
  "snd (signup env now uuid salt email password name s) =
   (case (email, password) of
      (Some e, Some pw) \<Rightarrow>
        if e = [] \<or> pw = [] \<or> \<not> emailRegex_test e \<or> length pw < 8 then s
        else snd (User_create env now uuid salt e pw name s)
    | _ \<Rightarrow> s)"
  by (simp add: signup_def split: option.splits sum.splits prod.splits)

lemma signup_tokens:
  "password_reset_tokens (snd (signup env now uuid salt email password name s)) =
   password_reset_tokens s"
  by (simp add: signup_store User_create_tokens split: option.splits)

lemma signup_duplicate:
  assumes "emailRegex_test e" "8 \<le> length pw"
    "trim (toLowerCase e) \<in> set (map u_email (users s))"
    "USE_POSTGRES env \<or> name \<noteq> None"
  shows "signup env now uuid salt (Some e) (Some pw) name s =
           (failure 409 ''An account with this email already exists'', s)"
proof -
  have "e \<noteq> []" using assms(1) by (auto simp add: emailRegex_test_def)
  moreover have "pw \<noteq> []" using assms(2) by auto
  ultimately show ?thesis using assms
    by (simp add: signup_def User_create_dup signup_catch_def)
qed

lemma login_store:
  "snd (login env now email password s) = s \<or>
   (\<exists>i. snd (login env now email password s) =
        update_users (where_id (Some i)) (\<lambda>u. u\<lparr>u_last_login := Some now\<rparr>) s)"
  by (auto simp add: login_def findByEmail_eq User_updateLastLogin_def sql_update_last_login_def
      query_update split: option.splits sum.splits prod.splits)

lemma login_tokens:
  "password_reset_tokens (snd (login env now email password s)) = password_reset_tokens s"
  using login_store[of env now email password s] by (auto simp add: update_users_tokens)

lemma verify_reset_token_store: "snd (verify_reset_token env now token s) = s"
  by (simp add: verify_reset_token_def select_reset_token_eq split: option.splits)

lemma forgot_password_unknown:
  assumes "e \<noteq> []" "find (\<lambda>u. u_email u = trim (toLowerCase e)) (users s) = None"
  shows "forgot_password env now r m (Some e) s = (forgot_password_accepted, s)"
  using assms by (simp add: forgot_password_def findByEmail_eq)

lemma forgot_password_known:
  assumes "e \<noteq> []" "find (\<lambda>u. u_email u = trim (toLowerCase e)) (users s) = Some u"
  shows "forgot_password env now r m (Some e) s =
     (forgot_password_accepted,
      s\<lparr>password_reset_tokens :=
          upsert_rows (u_id u) (sha256_hex env r) (now + TOKEN_EXPIRATION_MS) now
            (password_reset_tokens s)\<rparr>)"
  using assms by (simp add: forgot_password_def findByEmail_eq sql_upsert_reset_token_def query_update)

lemma forgot_password_store:
  "snd (forgot_password env now r m email s) = s \<or>
   (\<exists>u. u \<in> set (users s) \<and> snd (forgot_password env now r m email s) =
      s\<lparr>password_reset_tokens :=
          upsert_rows (u_id u) (sha256_hex env r) (now + TOKEN_EXPIRATION_MS) now
            (password_reset_tokens s)\<rparr>)"
proof (cases email)
  case None
  then show ?thesis by (simp add: forgot_password_def)
next
  case (Some e)
  show ?thesis
  proof (cases "e = []")
    case True
    with Some show ?thesis by (simp add: forgot_password_def)
  next
    case False
    show ?thesis
    proof (cases "find (\<lambda>u. u_email u = trim (toLowerCase e)) (users s)")
      case None
      with \<open>email = Some e\<close> False show ?thesis by (simp add: forgot_password_unknown)
    next
      case (Some u)
      then have "u \<in> set (users s)" by (auto simp add: find_Some_iff)
      with Some \<open>email = Some e\<close> False show ?thesis
        by (auto simp add: forgot_password_known)
    qed
  qed
qed

lemma reset_password_valid:
  assumes "tok \<noteq> []" "8 \<le> length pw"
    "find (\<lambda>r. t_token_hash r = sha256_hex env tok) (password_reset_tokens s) = Some r"
    "now \<le> t_expires_at r"
  shows "reset_password env now (Some tok) (Some pw) s = (failure 500 ''Failed to reset password'', s)"
  using assms by (auto simp add: reset_password_def select_reset_token_eq User_updatePassword_def)

lemma reset_password_expired:
  assumes "tok \<noteq> []" "8 \<le> length pw"
    "find (\<lambda>r. t_token_hash r = sha256_hex env tok) (password_reset_tokens s) = Some r"
    "t_expires_at r < now"
  shows "reset_password env now (Some tok) (Some pw) s =
    (failure 400 ''Reset token has expired. Please request a new one.'',
     s\<lparr>password_reset_tokens :=
         filter (\<lambda>r. t_token_hash r \<noteq> sha256_hex env tok) (password_reset_tokens s)\<rparr>)"
  using assms
  by (auto simp add: reset_password_def select_reset_token_eq sql_delete_reset_token_by_hash_def
      query_update)

lemma reset_password_unknown:
  assumes "tok \<noteq> []" "8 \<le> length pw"
    "find (\<lambda>r. t_token_hash r = sha256_hex env tok) (password_reset_tokens s) = None"
  shows "reset_password env now (Some tok) (Some pw) s =
           (failure 400 ''Invalid or expired reset token'', s)"
  using assms by (auto simp add: reset_password_def select_reset_token_eq)

lemma reset_password_store:
  "snd (reset_password env now token password s) = s \<or>
   (\<exists>P. snd (reset_password env now token password s) =
      s\<lparr>password_reset_tokens := filter P (password_reset_tokens s)\<rparr>)"
  by (auto simp add: reset_password_def select_reset_token_eq User_updatePassword_def
      sql_delete_reset_token_by_hash_def query_update Let_def
      split: option.splits sum.splits prod.splits)

section \<open>The token-validity probe\<close>

text \<open>
  Claim C10. The probe \<open>GET /api/auth/verify-reset-token\<close> changes nothing in the store,
  whatever the store, the clock and the token presented; for a token it is given it
  answers \<open>valid\<close> true or false. In particular a row whose expiry has passed is answered
  with \<open>valid: false\<close> and is still in the table afterwards, whereas
  \<open>POST /api/auth/reset-password\<close> with the same token (and an acceptable password)
  deletes the rows with that hash and answers that the token has expired.
\<close>

theorem verify_reset_token_reads_only:
  "snd (verify_reset_token env now token s) = s \<and>
   (tok \<noteq> [] \<longrightarrow>
      (\<exists>v. fst (verify_reset_token env now (Some tok) s) =
             res_json 200 [(''success'', JBool True), (''valid'', JBool v)])) \<and>
   (tok \<noteq> [] \<and> 8 \<le> length pw \<and>
    find (\<lambda>r. t_token_hash r = sha256_hex env tok) (password_reset_tokens s) = Some r \<and>
    t_expires_at r < now \<longrightarrow>
      verify_reset_token env now (Some tok) s =
        (res_json 200 [(''success'', JBool True), (''valid'', JBool False)], s) \<and>
      r \<in> set (password_reset_tokens (snd (verify_reset_token env now (Some tok) s))) \<and>
      reset_password env now (Some tok) (Some pw) s =
        (failure 400 ''Reset token has expired. Please request a new one.'',
         s\<lparr>password_reset_tokens :=
             filter (\<lambda>r. t_token_hash r \<noteq> sha256_hex env tok) (password_reset_tokens s)\<rparr>) \<and>
      r \<notin> set (password_reset_tokens (snd (reset_password env now (Some tok) (Some pw) s))))"
proof (intro conjI impI)
  show "snd (verify_reset_token env now token s) = s"
    by (rule verify_reset_token_store)
next
  assume "tok \<noteq> []"
  then have "fst (verify_reset_token env now (Some tok) s) =
               res_json 200 [(''success'', JBool True), (''valid'', JBool False)] \<or>
             fst (verify_reset_token env now (Some tok) s) =
               res_json 200 [(''success'', JBool True), (''valid'', JBool True)]"
    by (simp add: verify_reset_token_def select_reset_token_eq split: option.splits)
  then show "\<exists>v. fst (verify_reset_token env now (Some tok) s) =
             res_json 200 [(''success'', JBool True), (''valid'', JBool v)]"
    by blast
next
  assume a: "tok \<noteq> [] \<and> 8 \<le> length pw \<and>
    find (\<lambda>r. t_token_hash r = sha256_hex env tok) (password_reset_tokens s) = Some r \<and>
    t_expires_at r < now"
  then have mem: "r \<in> set (password_reset_tokens s)" and hash: "t_token_hash r = sha256_hex env tok"
    by (auto simp add: find_Some_iff)
  show "verify_reset_token env now (Some tok) s =
        (res_json 200 [(''success'', JBool True), (''valid'', JBool False)], s)"
    using a by (simp add: verify_reset_token_def select_reset_token_eq)
  show "r \<in> set (password_reset_tokens (snd (verify_reset_token env now (Some tok) s)))"
    using mem by (simp add: verify_reset_token_store)
  show expired: "reset_password env now (Some tok) (Some pw) s =
        (failure 400 ''Reset token has expired. Please request a new one.'',
         s\<lparr>password_reset_tokens :=
             filter (\<lambda>r. t_token_hash r \<noteq> sha256_hex env tok) (password_reset_tokens s)\<rparr>)"
    using a by (simp add: reset_password_expired)
  show "r \<notin> set (password_reset_tokens (snd (reset_password env now (Some tok) (Some pw) s)))"
    unfolding expired using hash by simp
qed

theorem verify_reset_token_reads_only_witness:
  "verify_reset_token (example_env False) 7200001 (Some ''tok1'') example_store =
     (res_json 200 [(''success'', JBool True), (''valid'', JBool False)], example_store) \<and>
   alice_token \<in> set (password_reset_tokens
     (snd (verify_reset_token (example_env False) 7200001 (Some ''tok1'') example_store))) \<and>
   reset_password (example_env False) 7200001 (Some ''tok1'') (Some ''newpassword1'') example_store =
     (failure 400 ''Reset token has expired. Please request a new one.'',
      example_store\<lparr>password_reset_tokens := []\<rparr>)"
  using verify_reset_token_reads_only[of "example_env False" 7200001 "Some ''tok1''" example_store
      "''tok1''" "''newpassword1''" alice_token]
  by (simp add: example_env_def example_store_def alice_token_def)

section \<open>Requesting a reset\<close>

text \<open>
  Claim C7. Of two forgot-password requests, one naming an email that no user has and one
  naming the email of a user, the responses are the same response (status and body),
  whatever the backend, the clock, the secret drawn and the outcome of the email
  dispatch; and the request that matches no user leaves the store as it was.
\<close>

theorem forgot_password_anti_enumeration:
  assumes "e1 \<noteq> []" and "e2 \<noteq> []"
    and "find (\<lambda>u. u_email u = trim (toLowerCase e1)) (users s1) = None"
    and "find (\<lambda>u. u_email u = trim (toLowerCase e2)) (users s2) = Some u"
  shows "fst (forgot_password env now1 r1 m1 (Some e1) s1) =
           fst (forgot_password env now2 r2 m2 (Some e2) s2) \<and>
         fst (forgot_password env now1 r1 m1 (Some e1) s1) = forgot_password_accepted \<and>
         snd (forgot_password env now1 r1 m1 (Some e1) s1) = s1"
  using assms by (simp add: forgot_password_unknown forgot_password_known)

theorem forgot_password_anti_enumeration_witness:
  "fst (forgot_password (example_env True) 5000 ''r1'' True (Some ''nobody@b.com'') example_store) =
     fst (forgot_password (example_env True) 6000 ''r2'' False (Some ''A@B.com'') example_store) \<and>
   fst (forgot_password (example_env True) 5000 ''r1'' True (Some ''nobody@b.com'') example_store) =
     forgot_password_accepted \<and>
   snd (forgot_password (example_env True) 5000 ''r1'' True (Some ''nobody@b.com'') example_store) =
     example_store"
proof -
  have unknown: "find (\<lambda>u. u_email u = trim (toLowerCase ''nobody@b.com'')) (users example_store) = None"
    by (simp add: example_store_def alice_def trim_def toLowerCase_def lower_char_def is_space_def)
  have known: "find (\<lambda>u. u_email u = trim (toLowerCase ''A@B.com'')) (users example_store) = Some alice"
    by (simp add: example_store_def alice_def trim_def toLowerCase_def lower_char_def is_space_def)
  have "''nobody@b.com'' \<noteq> []" and "''A@B.com'' \<noteq> []"
    by simp_all
  from forgot_password_anti_enumeration[OF this unknown known, where env = "example_env True"
      and ?now1.0 = 5000 and ?r1.0 = "''r1''" and ?m1.0 = True
      and ?now2.0 = 6000 and ?r2.0 = "''r2''" and ?m2.0 = False]
  show ?thesis .
qed

section \<open>One reset token per user\<close>

lemma upsert_rows_user_ids:
  "map t_user_id (upsert_rows uid h e now ts) =
     (if uid \<in> set (map t_user_id ts) then map t_user_id ts else map t_user_id ts @ [uid])"
  by (auto simp add: upsert_rows_def)

lemma upsert_rows_distinct:
  "distinct (map t_user_id ts) \<Longrightarrow> distinct (map t_user_id (upsert_rows uid h e now ts))"
  by (simp add: upsert_rows_user_ids)

lemma upsert_rows_has_user: "uid \<in> set (map t_user_id (upsert_rows uid h e now ts))"
  by (simp add: upsert_rows_user_ids)

lemma upsert_rows_row:
  assumes "r \<in> set (upsert_rows uid h e now ts)"
  shows "(t_user_id r = uid \<and> t_token_hash r = h) \<or> (t_user_id r \<noteq> uid \<and> r \<in> set ts)"
  using assms by (auto simp add: upsert_rows_def split: if_splits)

lemma forgot_password_inv:
  "one_token_per_user s \<Longrightarrow> one_token_per_user (snd (forgot_password env now r m email s))"
  using forgot_password_store[of env now r m email s]
  by (auto simp add: one_token_per_user_def upsert_rows_distinct)

lemma reset_password_inv:
  "one_token_per_user s \<Longrightarrow> one_token_per_user (snd (reset_password env now token password s))"
  using reset_password_store[of env now token password s]
  by (auto simp add: one_token_per_user_def distinct_map_filter)

text \<open>The webhook handlers, as equations: each is one conditional update of the users table.\<close>

lemma handleCheckoutComplete_eq:
  "handleCheckoutComplete env now session s =
     (if truthy (metadata_userId session) \<and> \<not> USE_POSTGRES env
      then update_users (where_id (metadata_userId session))
             (\<lambda>u. u\<lparr>u_subscription_tier := ''pro'', u_subscription_status := ''active'',
                    u_stripe_customer_id := customer session, u_updated_at := now\<rparr>) s
      else s)"
  by (auto simp add: handleCheckoutComplete_def Let_def sql_update_checkout_def run_update truthy_def)

lemma handleSubscriptionUpdate_eq:
  "handleSubscriptionUpdate env now subscription s =
     (if truthy (metadata_userId subscription) \<and> \<not> USE_POSTGRES env
      then update_users (where_id (metadata_userId subscription))
             (\<lambda>u. u\<lparr>u_subscription_tier :=
                       (if status subscription = ''active'' \<or> status subscription = ''trialing''
                        then ''pro'' else ''free''),
                    u_subscription_status := status subscription, u_updated_at := now\<rparr>) s
      else s)"
  by (auto simp add: handleSubscriptionUpdate_def Let_def sql_update_subscription_def run_update
      truthy_def)

lemma handleSubscriptionCanceled_eq:
  "handleSubscriptionCanceled env now subscription s =
     (if truthy (metadata_userId subscription) \<and> \<not> USE_POSTGRES env
      then update_users (where_id (metadata_userId subscription))
             (\<lambda>u. u\<lparr>u_subscription_tier := ''free'', u_subscription_status := ''canceled'',
                    u_updated_at := now\<rparr>) s
      else s)"
  by (auto simp add: handleSubscriptionCanceled_def Let_def promise_truthy_def promise_id_def
      sql_update_canceled_def run_update truthy_def)

lemma handlePaymentFailed_eq: "handlePaymentFailed env now invoice s = s"
  by (simp add: handlePaymentFailed_def sql_select_user_by_customer_def get_select split: if_splits)

lemma dispatch_tokens: "password_reset_tokens (dispatch env now ev s) = password_reset_tokens s"
  by (simp add: dispatch_def handleCheckoutComplete_eq handleSubscriptionUpdate_eq
      handleSubscriptionCanceled_eq handlePaymentFailed_eq update_users_tokens)

lemma handleWebhook_tokens:
  "password_reset_tokens (snd (handleWebhook env now body sig s)) = password_reset_tokens s"
  by (simp add: handleWebhook_def dispatch_tokens split: sum.splits)

text \<open>The invariant holds of the empty database and every request keeps it.\<close>

lemma init_inv: "one_token_per_user init_store"
  by (simp add: one_token_per_user_def init_store_def)

lemma serve_inv:
  assumes "one_token_per_user s"
  shows "one_token_per_user (snd (serve env r s))"
proof (cases r)
  case (Signup now uuid salt email password name)
  then show ?thesis using assms signup_tokens[of env now uuid salt email password name s]
    by (simp add: one_token_per_user_def)
next
  case (Login now email password)
  then show ?thesis using assms login_tokens[of env now email password s]
    by (simp add: one_token_per_user_def)
next
  case (ForgotPassword now resetToken emailResult email)
  then show ?thesis using assms by (simp add: forgot_password_inv)
next
  case (ResetPassword now token password)
  then show ?thesis using assms by (simp add: reset_password_inv)
next
  case (VerifyResetToken now token)
  then show ?thesis using assms by (simp add: verify_reset_token_store)
next
  case (StripeWebhook now body sig)
  then show ?thesis using assms handleWebhook_tokens[of env now body sig s]
    by (simp add: one_token_per_user_def)
qed

lemma serve_all_inv: "one_token_per_user s \<Longrightarrow> one_token_per_user (serve_all env rs s)"
  by (induction rs arbitrary: s) (simp_all add: serve_inv)

lemma filter_key_single:
  assumes "distinct (map f xs)" "k \<in> set (map f xs)"
  shows "\<exists>y. filter (\<lambda>r. f r = k) xs = [y]"
  using assms
proof (induction xs)
  case Nil
  then show ?case by simp
next
  case (Cons x xs)
  show ?case
  proof (cases "f x = k")
    case True
    with Cons.prems have "\<forall>r\<in>set xs. f r \<noteq> k"
      by (metis distinct.simps(2) image_eqI list.simps(9) set_map)
    then have "filter (\<lambda>r. f r = k) xs = []" by (simp add: filter_empty_conv)
    with True show ?thesis by simp
  next
    case False
    with Cons show ?thesis by auto
  qed
qed

lemma second_request_replaces:
  fixes s :: "'a store_scheme"
  assumes inv: "one_token_per_user s"
    and e1: "e1 \<noteq> []" and e2: "e2 \<noteq> []"
    and u: "find (\<lambda>u. u_email u = trim (toLowerCase e1)) (users s) = Some u"
    and same: "trim (toLowerCase e2) = trim (toLowerCase e1)"
    and fresh: "sha256_hex env r1 \<notin> set (map t_token_hash (password_reset_tokens s))"
    and differ: "sha256_hex env r2 \<noteq> sha256_hex env r1"
    and s1: "s1 = snd (forgot_password env now1 r1 m1 (Some e1) s)"
    and s2: "s2 = snd (forgot_password env now2 r2 m2 (Some e2) s1)"
  shows "one_token_per_user s1"
    and "one_token_per_user s2"
    and "map t_token_hash (filter (\<lambda>r. t_user_id r = u_id u) (password_reset_tokens s2)) =
           [sha256_hex env r2]"
    and "find (\<lambda>r. t_token_hash r = sha256_hex env r1) (password_reset_tokens s2) = None"
proof -
  let ?ts = "password_reset_tokens s"
  let ?ts1 = "upsert_rows (u_id u) (sha256_hex env r1) (now1 + TOKEN_EXPIRATION_MS) now1 ?ts"
  let ?ts2 = "upsert_rows (u_id u) (sha256_hex env r2) (now2 + TOKEN_EXPIRATION_MS) now2 ?ts1"
  have t1: "s1 = s\<lparr>password_reset_tokens := ?ts1\<rparr>"
    using s1 e1 u by (simp add: forgot_password_known)
  have "find (\<lambda>u. u_email u = trim (toLowerCase e2)) (users s1) = Some u"
    using u same t1 by simp
  then have t2: "s2 = s1\<lparr>password_reset_tokens := ?ts2\<rparr>"
    using s2 e2 t1 by (simp add: forgot_password_known)
  have tokens2: "password_reset_tokens s2 = ?ts2" using t1 t2 by simp
  show "one_token_per_user s1"
    using inv s1 by (simp add: forgot_password_inv)
  show inv2: "one_token_per_user s2"
    using inv tokens2 by (simp add: one_token_per_user_def upsert_rows_distinct)
  have rows: "t_token_hash r \<noteq> sha256_hex env r1 \<and>
              (t_user_id r = u_id u \<longrightarrow> t_token_hash r = sha256_hex env r2)"
    if "r \<in> set ?ts2" for r
  proof -
    from upsert_rows_row[OF that] show ?thesis
    proof
      assume "t_user_id r = u_id u \<and> t_token_hash r = sha256_hex env r2"
      then show ?thesis using differ by simp
    next
      assume a: "t_user_id r \<noteq> u_id u \<and> r \<in> set ?ts1"
      then have "r \<in> set ?ts"
        using upsert_rows_row[of r "u_id u" "sha256_hex env r1" _ now1 ?ts] by blast
      then have "t_token_hash r \<in> set (map t_token_hash ?ts)" by simp
      then show ?thesis using fresh a by metis
    qed
  qed
  show "find (\<lambda>r. t_token_hash r = sha256_hex env r1) (password_reset_tokens s2) = None"
    unfolding tokens2 using rows by (simp add: find_None_iff)
  have "u_id u \<in> set (map t_user_id ?ts2)" by (rule upsert_rows_has_user)
  moreover have "distinct (map t_user_id ?ts2)"
    using inv2 tokens2 by (simp add: one_token_per_user_def)
  ultimately obtain y where y: "filter (\<lambda>r. t_user_id r = u_id u) ?ts2 = [y]"
    using filter_key_single[of t_user_id ?ts2 "u_id u"] by blast
  then have "y \<in> set (filter (\<lambda>r. t_user_id r = u_id u) ?ts2)" by simp
  then have "y \<in> set ?ts2 \<and> t_user_id y = u_id u" by simp
  then have "t_token_hash y = sha256_hex env r2" using rows by blast
  then show "map t_token_hash (filter (\<lambda>r. t_user_id r = u_id u) (password_reset_tokens s2)) =
               [sha256_hex env r2]"
    unfolding tokens2 y by simp
qed

text \<open>
  Claim C8. In every store the server reaches from the empty database, whatever the
  requests to its routes, \<open>password_reset_tokens\<close> holds at most one row per user, and from a store
  with that property every sequence of requests leads to one with it. When a user
  requests a reset twice in succession (the second secret hashing differently from the
  first, and the first secret's hash new to the table when it is issued), the table then
  holds exactly one row for that user, carrying the hash of the second secret, and the
  first secret no longer validates: the probe answers \<open>valid: false\<close> and reset-password
  answers 400 "Invalid or expired reset token".
\<close>

theorem reset_token_one_row_per_user:
  fixes s :: "'a store_scheme"
  assumes inv: "one_token_per_user s"
    and e1: "e1 \<noteq> []" and e2: "e2 \<noteq> []"
    and u: "find (\<lambda>u. u_email u = trim (toLowerCase e1)) (users s) = Some u"
    and same: "trim (toLowerCase e2) = trim (toLowerCase e1)"
    and fresh: "sha256_hex env r1 \<notin> set (map t_token_hash (password_reset_tokens s))"
    and differ: "sha256_hex env r2 \<noteq> sha256_hex env r1"
    and s1: "s1 = snd (forgot_password env now1 r1 m1 (Some e1) s)"
    and s2: "s2 = snd (forgot_password env now2 r2 m2 (Some e2) s1)"
    and r1: "r1 \<noteq> []" and pw: "8 \<le> length pw"
  shows "one_token_per_user (serve_all env reqs init_store) \<and>
         one_token_per_user (serve_all env reqs s) \<and>
         one_token_per_user s1 \<and> one_token_per_user s2 \<and>
         map t_token_hash (filter (\<lambda>r. t_user_id r = u_id u) (password_reset_tokens s2)) =
           [sha256_hex env r2] \<and>
         fst (verify_reset_token env now3 (Some r1) s2) =
           res_json 200 [(''success'', JBool True), (''valid'', JBool False)] \<and>
         reset_password env now3 (Some r1) (Some pw) s2 =
           (failure 400 ''Invalid or expired reset token'', s2)"
proof -
  note facts = second_request_replaces[OF inv e1 e2 u same fresh differ s1 s2]
  have none: "find (\<lambda>r. t_token_hash r = sha256_hex env r1) (password_reset_tokens s2) = None"
    by (rule facts(4))
  have probe: "fst (verify_reset_token env now3 (Some r1) s2) =
          res_json 200 [(''success'', JBool True), (''valid'', JBool False)]"
    using r1 none by (simp add: verify_reset_token_def select_reset_token_eq)
  have consume: "reset_password env now3 (Some r1) (Some pw) s2 =
          (failure 400 ''Invalid or expired reset token'', s2)"
    using r1 pw none by (simp add: reset_password_unknown)
  have reach: "one_token_per_user (serve_all env reqs init_store)"
    by (simp add: serve_all_inv init_inv)
  have keep: "one_token_per_user (serve_all env reqs s)"
    using inv by (rule serve_all_inv)
  show ?thesis
    using reach keep facts(1) facts(2) facts(3) probe consume by blast
qed

theorem reset_token_one_row_per_user_witness:
  "one_token_per_user (serve_all (example_env False) [VerifyResetToken 1 None] init_store) \<and>
   one_token_per_user (serve_all (example_env False) [VerifyResetToken 1 None] example_store) \<and>
   one_token_per_user after_first_request \<and> one_token_per_user after_second_request \<and>
   map t_token_hash (filter (\<lambda>r. t_user_id r = u_id alice) (password_reset_tokens after_second_request)) =
     [sha256_hex (example_env False) ''r2''] \<and>
   fst (verify_reset_token (example_env False) 7000 (Some ''r1'') after_second_request) =
     res_json 200 [(''success'', JBool True), (''valid'', JBool False)] \<and>
   reset_password (example_env False) 7000 (Some ''r1'') (Some ''newpassword1'') after_second_request =
     (failure 400 ''Invalid or expired reset token'', after_second_request)"
proof -
  have inv: "one_token_per_user example_store"
    by (simp add: one_token_per_user_def example_store_def)
  have e1: "''a@b.com'' \<noteq> []" and e2: "'' A@B.com '' \<noteq> []" and r1: "''r1'' \<noteq> []"
    by simp_all
  have u: "find (\<lambda>u. u_email u = trim (toLowerCase ''a@b.com'')) (users example_store) = Some alice"
    by (simp add: example_store_def alice_def trim_def toLowerCase_def lower_char_def is_space_def)
  have same: "trim (toLowerCase '' A@B.com '') = trim (toLowerCase ''a@b.com'')"
    by (simp add: trim_def toLowerCase_def lower_char_def is_space_def)
  have fresh: "sha256_hex (example_env False) ''r1''
                 \<notin> set (map t_token_hash (password_reset_tokens example_store))"
    by (simp add: example_env_def example_store_def alice_token_def)
  have differ: "sha256_hex (example_env False) ''r2'' \<noteq> sha256_hex (example_env False) ''r1''"
    by (simp add: example_env_def)
  have pw: "8 \<le> length ''newpassword1''"
    by simp
  from reset_token_one_row_per_user[OF inv e1 e2 u same fresh differ
      after_first_request_def after_second_request_def r1 pw,
      where reqs = "[VerifyResetToken 1 None]" and ?now3.0 = 7000]
  show ?thesis .
qed

section \<open>The webhook's verification gate\<close>

lemma handleWebhook_rejects:
  assumes "sig \<noteq> Some (stripe_signature env (STRIPE_WEBHOOK_SECRET env) body)"
  shows "handleWebhook env now body sig s =
    (\<lparr>res_status = 400,
      res_body = Text (''Webhook Error: '' @
        ''No signatures found matching the expected signature for payload'')\<rparr>, s)"
  using assms by (simp add: handleWebhook_def constructEvent_def del: append.simps)

text \<open>
  Claim C3. A webhook request whose signature header is not the signature of the
  delivered raw body under the shared secret (a missing header and a signature computed
  over another body included) is answered 400 and leaves the store as it was, every
  table of it. No dispatch on the event type runs: the outcome is the same whatever the
  body would parse to.
\<close>

theorem webhook_signature_gate:
  assumes "sig \<noteq> Some (stripe_signature env (STRIPE_WEBHOOK_SECRET env) body)"
  shows "res_status (fst (handleWebhook env now body sig s)) = 400 \<and>
         snd (handleWebhook env now body sig s) = s \<and>
         handleWebhook (env\<lparr>JSON_parse := parse\<rparr>) now body sig s = handleWebhook env now body sig s"
proof -
  have other: "sig \<noteq> Some (stripe_signature (env\<lparr>JSON_parse := parse\<rparr>)
                       (STRIPE_WEBHOOK_SECRET (env\<lparr>JSON_parse := parse\<rparr>)) body)"
    using assms by simp
  have "handleWebhook (env\<lparr>JSON_parse := parse\<rparr>) now body sig s =
             handleWebhook env now body sig s"
    unfolding handleWebhook_rejects[OF other] handleWebhook_rejects[OF assms] by (rule refl)
  then show ?thesis
    using assms by (simp add: handleWebhook_rejects)
qed

theorem webhook_signature_gate_witness:
  "res_status (fst (handleWebhook (example_env False) 5000 ''deleted cus_1''
      (Some (stripe_signature (example_env False) ''whsec'' ''updated u1 past_due'')) example_store)) = 400 \<and>
   snd (handleWebhook (example_env False) 5000 ''deleted cus_1''
      (Some (stripe_signature (example_env False) ''whsec'' ''updated u1 past_due'')) example_store) =
     example_store"
proof -
  have "Some (stripe_signature (example_env False) ''whsec'' ''updated u1 past_due'') \<noteq>
        Some (stripe_signature (example_env False) (STRIPE_WEBHOOK_SECRET (example_env False))
                ''deleted cus_1'')"
    by (simp add: example_env_def)
  from webhook_signature_gate[OF this, where now = 5000 and s = example_store]
  show ?thesis by blast
qed

section \<open>The reconciler's transitions\<close>

lemma update_users_twice:
  assumes "\<And>u. u_id (f u) = u_id u"
    and "\<And>u. (g (f u))\<lparr>u_updated_at := 0\<rparr> = (f u)\<lparr>u_updated_at := 0\<rparr>"
  shows "ignoring_updated_at (update_users (where_id i) g (update_users (where_id i) f s)) =
         ignoring_updated_at (update_users (where_id i) f s)"
  using assms by (simp add: ignoring_updated_at_def update_users_def where_id_def)

lemma update_users_again:
  assumes "\<And>u. u_id (f u) = u_id u" and "\<And>u. f (f u) = f u"
  shows "update_users (where_id i) f (update_users (where_id i) f s) = update_users (where_id i) f s"
  using assms by (simp add: update_users_def where_id_def)

lemma dispatch_twice:
  "ignoring_updated_at (dispatch env now2 ev (dispatch env now1 ev s)) =
   ignoring_updated_at (dispatch env now1 ev s)"
  by (simp add: dispatch_def handleCheckoutComplete_eq handleSubscriptionUpdate_eq
      handleSubscriptionCanceled_eq handlePaymentFailed_eq update_users_twice)

lemma dispatch_again: "dispatch env now ev (dispatch env now ev s) = dispatch env now ev s"
  by (simp add: dispatch_def handleCheckoutComplete_eq handleSubscriptionUpdate_eq
      handleSubscriptionCanceled_eq handlePaymentFailed_eq update_users_again)

lemma subscription_state_ignoring:
  "map subscription_state (users (ignoring_updated_at s)) = map subscription_state (users s)"
  by (simp add: ignoring_updated_at_def subscription_state_def)

text \<open>
  Claim C4. For every store (hence every user in it), every event and every pair of
  delivery times, applying the reconciler's transition for the event a second time
  leaves the store as the first application left it, up to the \<open>updated_at\<close> stamp: in
  particular each user's id, tier, status and external customer reference are the same
  after two applications as after one, and with the same clock reading the two stores
  are equal. The same holds of two deliveries of one webhook request.
\<close>

theorem reconciler_transitions_idempotent:
  "ignoring_updated_at (dispatch env now2 ev (dispatch env now1 ev s)) =
     ignoring_updated_at (dispatch env now1 ev s) \<and>
   map subscription_state (users (dispatch env now2 ev (dispatch env now1 ev s))) =
     map subscription_state (users (dispatch env now1 ev s)) \<and>
   dispatch env now1 ev (dispatch env now1 ev s) = dispatch env now1 ev s \<and>
   ignoring_updated_at (snd (handleWebhook env now2 body sig (snd (handleWebhook env now1 body sig s)))) =
     ignoring_updated_at (snd (handleWebhook env now1 body sig s))"
proof (intro conjI)
  show "ignoring_updated_at (dispatch env now2 ev (dispatch env now1 ev s)) =
          ignoring_updated_at (dispatch env now1 ev s)"
    by (rule dispatch_twice)
  then have "map subscription_state (users (ignoring_updated_at (dispatch env now2 ev (dispatch env now1 ev s)))) =
             map subscription_state (users (ignoring_updated_at (dispatch env now1 ev s)))"
    by simp
  then show "map subscription_state (users (dispatch env now2 ev (dispatch env now1 ev s))) =
          map subscription_state (users (dispatch env now1 ev s))"
    by (simp only: subscription_state_ignoring)
  show "dispatch env now1 ev (dispatch env now1 ev s) = dispatch env now1 ev s"
    by (rule dispatch_again)
  show "ignoring_updated_at (snd (handleWebhook env now2 body sig (snd (handleWebhook env now1 body sig s)))) =
          ignoring_updated_at (snd (handleWebhook env now1 body sig s))"
    by (simp add: handleWebhook_def dispatch_twice split: sum.splits)
qed

theorem reconciler_transitions_idempotent_witness:
  "map subscription_state (users (dispatch (example_env False) 6000
       \<lparr>ev_type = ''customer.subscription.deleted'',
        data_object = \<lparr>metadata_userId = Some ''u1'', customer = Some ''cus_1'', status = ''canceled''\<rparr>\<rparr>
       (dispatch (example_env False) 5000
          \<lparr>ev_type = ''customer.subscription.deleted'',
           data_object = \<lparr>metadata_userId = Some ''u1'', customer = Some ''cus_1'', status = ''canceled''\<rparr>\<rparr>
          example_store))) =
   [(''u1'', ''free'', ''canceled'', Some ''cus_1'')]"
  using reconciler_transitions_idempotent[of "example_env False" 6000
      "\<lparr>ev_type = ''customer.subscription.deleted'',
        data_object = \<lparr>metadata_userId = Some ''u1'', customer = Some ''cus_1'', status = ''canceled''\<rparr>\<rparr>"
      5000 example_store]
  by (simp add: dispatch_def handleSubscriptionCanceled_eq truthy_def example_env_def
      update_users_def where_id_def example_store_def alice_def subscription_state_def)

text \<open>
  On the SQLite backend a subscription update carrying a user reference writes the tier
  derived from the external status, and the status itself, into the rows of that user.
\<close>

lemma handleSubscriptionUpdate_sqlite:
  assumes "\<not> USE_POSTGRES env" "metadata_userId subscription = Some uid" "uid \<noteq> []"
  shows "users (handleSubscriptionUpdate env now subscription s) =
     map (\<lambda>u. if u_id u = uid
               then u\<lparr>u_subscription_tier :=
                        (if status subscription = ''active'' \<or> status subscription = ''trialing''
                         then ''pro'' else ''free''),
                      u_subscription_status := status subscription, u_updated_at := now\<rparr>
               else u) (users s)"
  using assms by (auto simp add: handleSubscriptionUpdate_eq truthy_def update_users_def where_id_def)

text \<open>
  On the PostgreSQL backend every handler is inert: \<open>db.run\<close> hands the text with its \<open>?\<close>
  placeholders to \<open>pgPool.query\<close>, the promise rejects and nobody awaits it.
\<close>

lemma dispatch_postgres: "USE_POSTGRES env \<Longrightarrow> dispatch env now ev s = s"
  by (simp add: dispatch_def handleCheckoutComplete_eq handleSubscriptionUpdate_eq
      handleSubscriptionCanceled_eq handlePaymentFailed_eq)

text \<open>
  A "subscription deleted" event without a user reference changes nothing on either
  backend: \<open>user\<close> is the Promise that the un-awaited \<open>db.get\<close> returns, so the branch is
  taken and the update is bound to \<open>user.id\<close>, which is \<open>undefined\<close>.
\<close>

lemma handleSubscriptionCanceled_no_reference:
  "\<not> truthy (metadata_userId subscription) \<Longrightarrow> handleSubscriptionCanceled env now subscription s = s"
  by (simp add: handleSubscriptionCanceled_eq)

text \<open>
  Claim C2, at a concrete input. The stored user has the external customer reference
  \<open>cus_1\<close> and a paid subscription; a correctly signed "subscription deleted" event names
  customer \<open>cus_1\<close> and carries no user reference. On either backend the handler leaves
  the store unchanged: the user is still \<open>pro\<close> and \<open>active\<close>, not \<open>free\<close> and \<open>canceled\<close>.
\<close>

theorem subscription_deleted_by_customer_example:
  "map subscription_state (users example_store) = [(''u1'', ''pro'', ''active'', Some ''cus_1'')] \<and>
   constructEvent (example_env False) ''deleted cus_1'' (Some ''whsecdeleted cus_1'') ''whsec'' =
     Inr \<lparr>ev_type = ''customer.subscription.deleted'',
          data_object = \<lparr>metadata_userId = None, customer = Some ''cus_1'', status = ''canceled''\<rparr>\<rparr> \<and>
   snd (handleWebhook (example_env False) 5000 ''deleted cus_1'' (Some ''whsecdeleted cus_1'')
          example_store) = example_store \<and>
   snd (handleWebhook (example_env True) 5000 ''deleted cus_1'' (Some ''whsecdeleted cus_1'')
          example_store) = example_store"
  by (simp add: handleWebhook_def constructEvent_def example_env_def example_parse_def dispatch_def
      handleSubscriptionCanceled_no_reference truthy_def example_store_def alice_def
      subscription_state_def)

text \<open>
  Claim C5, at a concrete input. On the PostgreSQL backend a correctly signed
  "subscription updated" event for user \<open>u1\<close> with external status \<open>past_due\<close> leaves the
  store unchanged: the user is still \<open>pro\<close> and \<open>active\<close>, not \<open>free\<close> and \<open>past_due\<close>. On
  the SQLite backend the same event sets \<open>free\<close> and \<open>past_due\<close>.
\<close>

theorem subscription_updated_postgres_example:
  "map subscription_state (users example_store) = [(''u1'', ''pro'', ''active'', Some ''cus_1'')] \<and>
   constructEvent (example_env True) ''updated u1 past_due'' (Some ''whsecupdated u1 past_due'') ''whsec'' =
     Inr \<lparr>ev_type = ''customer.subscription.updated'',
          data_object = \<lparr>metadata_userId = Some ''u1'', customer = Some ''cus_1'', status = ''past_due''\<rparr>\<rparr> \<and>
   snd (handleWebhook (example_env True) 5000 ''updated u1 past_due'' (Some ''whsecupdated u1 past_due'')
          example_store) = example_store \<and>
   map subscription_state (users (snd (handleWebhook (example_env False) 5000 ''updated u1 past_due''
       (Some ''whsecupdated u1 past_due'') example_store))) =
     [(''u1'', ''free'', ''past_due'', Some ''cus_1'')]"
  by (simp add: handleWebhook_def constructEvent_def example_env_def example_parse_def dispatch_def
      handleSubscriptionUpdate_eq truthy_def example_store_def alice_def subscription_state_def
      update_users_def where_id_def)

section \<open>Consuming a reset token\<close>

text \<open>
  Claim C1, at a concrete input. The store holds a reset-token row whose hash is that of
  the presented secret \<open>tok1\<close> and whose expiry (7200000) lies after the clock (3600001);
  the new password has twelve characters. On either backend the route answers 500
  "Failed to reset password" and the store is unchanged: the password hash is the old
  one and the token row is still there, so that a second consumption with the same
  secret is answered 500 again, not "Invalid or expired reset token".
\<close>

theorem reset_password_valid_token_example:
  "find (\<lambda>r. t_token_hash r = sha256_hex (example_env False) ''tok1'')
      (password_reset_tokens example_store) = Some alice_token \<and>
   3600001 \<le> t_expires_at alice_token \<and> 8 \<le> length ''newpassword1'' \<and>
   reset_password (example_env False) 3600001 (Some ''tok1'') (Some ''newpassword1'') example_store =
     (failure 500 ''Failed to reset password'', example_store) \<and>
   reset_password (example_env True) 3600001 (Some ''tok1'') (Some ''newpassword1'') example_store =
     (failure 500 ''Failed to reset password'', example_store) \<and>
   reset_password (example_env False) 3600002 (Some ''tok1'') (Some ''newpassword1'')
       (snd (reset_password (example_env False) 3600001 (Some ''tok1'') (Some ''newpassword1'')
          example_store)) =
     (failure 500 ''Failed to reset password'', example_store)"
proof -
  have row: "find (\<lambda>r. t_token_hash r = sha256_hex (example_env pg) ''tok1'')
      (password_reset_tokens example_store) = Some alice_token" for pg
    by (simp add: example_env_def example_store_def alice_token_def)
  have live: "3600001 \<le> t_expires_at alice_token" "3600002 \<le> t_expires_at alice_token"
    by (simp_all add: alice_token_def)
  have tok: "''tok1'' \<noteq> []" and pw: "8 \<le> length ''newpassword1''"
    by simp_all
  note fails = reset_password_valid[OF tok pw row]
  show ?thesis
    using row[of False] live(1) pw fails[OF live(1), of False] fails[OF live(1), of True]
      fails[OF live(2), of False]
    by simp
qed

section \<open>Signing up with a registered email\<close>

text \<open>An address that passes the pattern has no white space, so trimming it changes nothing.\<close>

lemma emailRegex_no_space:
  assumes "emailRegex_test e" and "c \<in> set e"
  shows "\<not> is_space c"
proof -
  from assms(1) obtain domain where
    d: "dropWhile email_char e = CHR ''@'' # domain" "list_all email_char domain"
    by (auto simp add: emailRegex_test_def split: list.splits)
  have "e = takeWhile email_char e @ dropWhile email_char e" by simp
  then have "set e = set (takeWhile email_char e) \<union> set (dropWhile email_char e)"
    by (metis set_append)
  with assms(2) d(1) have "c \<in> set (takeWhile email_char e) \<or> c = CHR ''@'' \<or> c \<in> set domain"
    by auto
  then show ?thesis
  proof (elim disjE)
    assume "c \<in> set (takeWhile email_char e)"
    then have "email_char c" using set_takeWhileD by metis
    then show ?thesis by (simp add: email_char_def)
  next
    assume "c = CHR ''@''"
    then show ?thesis by (simp add: is_space_def)
  next
    assume "c \<in> set domain"
    with d(2) have "email_char c" by (simp add: list_all_iff)
    then show ?thesis by (simp add: email_char_def)
  qed
qed

lemma emailRegex_trim:
  assumes "emailRegex_test e"
  shows "trim e = e"
proof -
  have ns: "\<And>c. c \<in> set e \<Longrightarrow> \<not> is_space c" using assms by (rule emailRegex_no_space)
  have "e \<noteq> []" using assms by (auto simp add: emailRegex_test_def)
  then have "\<not> is_space (hd e)" and "\<not> is_space (last e)" using ns by simp_all
  with \<open>e \<noteq> []\<close> have "dropWhile is_space e = e" and "dropWhile is_space (rev e) = rev e"
    by (simp_all add: dropWhile_eq_self_iff hd_rev)
  then show ?thesis by (simp add: trim_def)
qed

text \<open>
  At a concrete input, claim C9 as it is stated fails: the store holds a user whose email
  is the request's email up to case and surrounding white space, and the password is
  long enough, yet the signup is answered 400 "Please enter a valid email address", not
  409.
\<close>

theorem signup_whitespace_counterexample:
  "alice \<in> set (users example_store) \<and>
   trim (toLowerCase '' A@b.com '') = u_email alice \<and>
   fst (signup (example_env False) 5000 ''u2'' ''salt2'' (Some '' A@b.com '') (Some ''longenough1'')
          None example_store) =
     failure 400 ''Please enter a valid email address'' \<and>
   res_status (fst (signup (example_env False) 5000 ''u2'' ''salt2'' (Some '' A@b.com '')
          (Some ''longenough1'') None example_store)) \<noteq> 409"
  by (simp add: signup_def emailRegex_test_def email_char_def is_space_def trim_def
      toLowerCase_def lower_char_def alice_def example_store_def failure_def res_json_def)

text \<open>
  Claim C9, amended. When the request's email, lower-cased and trimmed, is the stored
  email of an existing user, the signup leaves the store as it was (no second row is
  created), whatever else the request holds. If moreover the request passes validation
  (the email matches the address pattern, which admits no white space, and the password
  has at least 8 characters) and its insert is executed (on PostgreSQL, and on SQLite
  when the request has a name), the answer is 409 "An account with this email already
  exists": \<open>User.create\<close> turns the store's uniqueness violation into "Email already
  exists" and the route turns that into the 409. A request whose email has white space
  in it is answered 400 by validation.
\<close>

theorem signup_duplicate_email:
  assumes "trim (toLowerCase e) \<in> set (map u_email (users s))"
  shows "snd (signup env now uuid salt (Some e) password name s) = s \<and>
         (emailRegex_test e \<and> 8 \<le> length pw \<and> (USE_POSTGRES env \<or> name \<noteq> None) \<longrightarrow>
            signup env now uuid salt (Some e) (Some pw) name s =
              (failure 409 ''An account with this email already exists'', s)) \<and>
         (e \<noteq> [] \<and> pw \<noteq> [] \<and> list_ex is_space e \<longrightarrow>
            signup env now uuid salt (Some e) (Some pw) name s =
              (failure 400 ''Please enter a valid email address'', s))"
proof (intro conjI impI)
  show "snd (signup env now uuid salt (Some e) password name s) = s"
    using assms by (simp add: signup_store User_create_taken split: option.splits)
next
  assume "emailRegex_test e \<and> 8 \<le> length pw \<and> (USE_POSTGRES env \<or> name \<noteq> None)"
  then show "signup env now uuid salt (Some e) (Some pw) name s =
              (failure 409 ''An account with this email already exists'', s)"
    using assms by (simp add: signup_duplicate)
next
  assume a: "e \<noteq> [] \<and> pw \<noteq> [] \<and> list_ex is_space e"
  then have "\<not> emailRegex_test e"
    using emailRegex_no_space[of e] by (auto simp add: list_ex_iff)
  with a show "signup env now uuid salt (Some e) (Some pw) name s =
              (failure 400 ''Please enter a valid email address'', s)"
    by (simp add: signup_def)
qed

theorem signup_duplicate_email_witness:
  "signup (example_env True) 5000 ''u2'' ''salt2'' (Some ''A@b.com'') (Some ''longenough1'') None
       example_store =
     (failure 409 ''An account with this email already exists'', example_store) \<and>
   signup (example_env False) 5000 ''u2'' ''salt2'' (Some ''A@b.com'') (Some ''longenough1'')
       (Some ''Alice'') example_store =
     (failure 409 ''An account with this email already exists'', example_store)"
proof -
  have dup: "trim (toLowerCase ''A@b.com'') \<in> set (map u_email (users example_store))"
    by (simp add: example_store_def alice_def trim_def toLowerCase_def lower_char_def is_space_def)
  have valid: "emailRegex_test ''A@b.com'' \<and> 8 \<le> length ''longenough1''"
    by (simp add: emailRegex_test_def email_char_def is_space_def)
  have pg: "USE_POSTGRES (example_env True) \<or> (None :: string option) \<noteq> None"
    by (simp add: example_env_def)
  have named: "USE_POSTGRES (example_env False) \<or> Some ''Alice'' \<noteq> None"
    by simp
  from signup_duplicate_email[OF dup, where pw = "''longenough1''" and env = "example_env True"
      and now = 5000 and uuid = "''u2''" and salt = "''salt2''" and name = None]
    signup_duplicate_email[OF dup, where pw = "''longenough1''" and env = "example_env False"
      and now = 5000 and uuid = "''u2''" and salt = "''salt2''" and name = "Some ''Alice''"]
    valid pg named
  show ?thesis by blast
qed

section \<open>Session credentials\<close>

lemma authenticateToken_second_word:
  "authenticateToken env now (Some [scheme, tok]) =
     (if \<not> token_truthy (Some tok) then Inl (failure 401 ''Access token required'')
      else (case jwt_verify env now tok (JWT_SECRET env) of
              Inl err \<Rightarrow> Inl (failure 403 ''Invalid or expired token'')
            | Inr decoded \<Rightarrow> Inr (jp_userId decoded, jp_email decoded)))"
  by (simp add: authenticateToken_def)

lemma verify_sign:
  assumes "jwt_sign env now userId email secret expiresIn = Inr tok"
    and "now' div 1000 < now div 1000 + expiresIn"
  shows "token_truthy (Some tok) \<and>
         jwt_verify env now' tok secret =
           Inr \<lparr>jp_userId = userId, jp_email = email, iat = now div 1000,
                exp = now div 1000 + expiresIn\<rparr>"
  using assms
  by (auto simp add: jwt_sign_def jwt_verify_def token_truthy_def Let_def split: if_splits)

text \<open>
  Claim C6. With a signing secret configured, a token is issued for every identity; a
  token issued for \<open>(userId, email)\<close> and presented while the clock, in seconds, is below
  the issue time plus seven days passes the middleware with exactly that \<open>userId\<close> and
  \<open>email\<close>. Every presented token that verification refuses, for whatever reason, gets
  the one answer 403 "Invalid or expired token": so does a token whose signature is not
  that of its payload, a token whose expiry the clock has reached, and a string that
  is no token at all.
\<close>

theorem session_credential_roundtrip:
  "(JWT_SECRET env \<noteq> [] \<longrightarrow>
      (\<exists>tok. jwt_sign env now userId email (JWT_SECRET env) JWT_EXPIRATION = Inr tok)) \<and>
   (jwt_sign env now userId email (JWT_SECRET env) JWT_EXPIRATION = Inr tok \<and>
    now' div 1000 < now div 1000 + 7 * 24 * 60 * 60 \<longrightarrow>
      authenticateToken env now' (Some [scheme, tok]) = Inr (userId, email)) \<and>
   (token_truthy (Some tok') \<and> jwt_verify env now' tok' (JWT_SECRET env) = Inl err \<longrightarrow>
      authenticateToken env now' (Some [scheme, tok']) = Inl (failure 403 ''Invalid or expired token'')) \<and>
   (sg \<noteq> hs256 env (JWT_SECRET env) p \<longrightarrow>
      authenticateToken env now' (Some [scheme, Jwt p sg]) = Inl (failure 403 ''Invalid or expired token'')) \<and>
   (exp p \<le> now' div 1000 \<longrightarrow>
      authenticateToken env now' (Some [scheme, Jwt p sg]) = Inl (failure 403 ''Invalid or expired token'')) \<and>
   (str \<noteq> [] \<longrightarrow>
      authenticateToken env now' (Some [scheme, Opaque str]) = Inl (failure 403 ''Invalid or expired token''))"
proof (intro conjI impI)
  assume "JWT_SECRET env \<noteq> []"
  then show "\<exists>tok. jwt_sign env now userId email (JWT_SECRET env) JWT_EXPIRATION = Inr tok"
    by (simp add: jwt_sign_def Let_def)
next
  assume "jwt_sign env now userId email (JWT_SECRET env) JWT_EXPIRATION = Inr tok \<and>
    now' div 1000 < now div 1000 + 7 * 24 * 60 * 60"
  then have "token_truthy (Some tok) \<and>
         jwt_verify env now' tok (JWT_SECRET env) =
           Inr \<lparr>jp_userId = userId, jp_email = email, iat = now div 1000,
                exp = now div 1000 + JWT_EXPIRATION\<rparr>"
    by (intro verify_sign) (simp_all add: JWT_EXPIRATION_def)
  then show "authenticateToken env now' (Some [scheme, tok]) = Inr (userId, email)"
    by (simp add: authenticateToken_second_word)
next
  assume "token_truthy (Some tok') \<and> jwt_verify env now' tok' (JWT_SECRET env) = Inl err"
  then show "authenticateToken env now' (Some [scheme, tok']) =
               Inl (failure 403 ''Invalid or expired token'')"
    by (simp add: authenticateToken_second_word)
next
  assume "sg \<noteq> hs256 env (JWT_SECRET env) p"
  then show "authenticateToken env now' (Some [scheme, Jwt p sg]) =
               Inl (failure 403 ''Invalid or expired token'')"
    by (simp add: authenticateToken_second_word jwt_verify_def token_truthy_def)
next
  assume "exp p \<le> now' div 1000"
  then show "authenticateToken env now' (Some [scheme, Jwt p sg]) =
               Inl (failure 403 ''Invalid or expired token'')"
    by (simp add: authenticateToken_second_word jwt_verify_def token_truthy_def)
next
  assume "str \<noteq> []"
  then show "authenticateToken env now' (Some [scheme, Opaque str]) =
               Inl (failure 403 ''Invalid or expired token'')"
    by (simp add: authenticateToken_second_word jwt_verify_def token_truthy_def)
qed

theorem session_credential_roundtrip_witness:
  "jwt_sign (example_env False) 1000000 ''u1'' ''a@b.com'' ''jwt-secret'' JWT_EXPIRATION =
     Inr alice_session \<and>
   authenticateToken (example_env False) 2000000 (Some [Opaque ''Bearer'', alice_session]) =
     Inr (''u1'', ''a@b.com'') \<and>
   authenticateToken (example_env False) 2000000 (Some [Opaque ''Bearer'', forged_session]) =
     Inl (failure 403 ''Invalid or expired token'') \<and>
   authenticateToken (example_env False) 2000000 (Some [Opaque ''Bearer'', Opaque ''garbage'']) =
     Inl (failure 403 ''Invalid or expired token'')"
proof -
  have secret: "JWT_SECRET (example_env False) = ''jwt-secret''"
    by (simp add: example_env_def)
  have issued: "jwt_sign (example_env False) 1000000 ''u1'' ''a@b.com'' (JWT_SECRET (example_env False))
                  JWT_EXPIRATION = Inr alice_session"
    by (simp add: jwt_sign_def example_env_def JWT_EXPIRATION_def alice_session_def)
  have window: "(2000000::nat) div 1000 < 1000000 div 1000 + 7 * 24 * 60 * 60"
    by simp
  have tampered: "''forged'' \<noteq> hs256 (example_env False) (JWT_SECRET (example_env False))
                    \<lparr>jp_userId = ''u1'', jp_email = ''a@b.com'', iat = 1000, exp = 1500\<rparr>"
    by (simp add: example_env_def)
  have garbage: "''garbage'' \<noteq> []"
    by simp
  from session_credential_roundtrip[where env = "example_env False" and now = 1000000
      and now' = 2000000 and userId = "''u1''" and email = "''a@b.com''" and tok = alice_session
      and scheme = "Opaque ''Bearer''" and sg = "''forged''"
      and p = "\<lparr>jp_userId = ''u1'', jp_email = ''a@b.com'', iat = 1000, exp = 1500\<rparr>"
      and str = "''garbage''"]
    issued window tampered garbage
  show ?thesis
    unfolding forged_session_def secret by blast
qed

end
